theory Spec2Isabelle
  imports Complex_Main "HOL-Library.Word" "HOL-Library.Multiset"
begin

unbundle bit_operations_syntax

section \<open>Python values and errors\<close>

text \<open>
  The exceptions the modelled code can raise. \<open>SystemExit\<close> carries the exit status
  handed to \<^verbatim>\<open>sys.exit\<close>; \<open>ModelError\<close> stands for whatever an external collaborator
  (the simulator, the feature class, scipy) raises, with its message.
\<close>

datatype error =
    TypeError string
  | AttributeError
  | KeyError
  | IndexError
  | ValueError
  | IOError
  | MemoryError
  | SystemExit int
  | ModelError string

text \<open>
  A chaospy distribution object is opaque to the repository; the model keeps a label that
  tells two objects apart and \<^verbatim>\<open>len(dist)\<close>, its number of axes.
\<close>

datatype Dist = Dist (dist_label: string) (dist_len: nat)

text \<open>
  The dynamically typed values that flow through \<^verbatim>\<open>parameters.py\<close>: what a generator
  function may return, what \<^verbatim>\<open>getattr\<close> may yield.
\<close>

datatype pyvalue =
    PyNone
  | PyStr string
  | PyNum real
  | PyDist Dist
  | PyMethod string
  | PyOther

text \<open>\<^verbatim>\<open>isinstance(x, cp.Dist)\<close>\<close>

fun isinstance_Dist :: "pyvalue \<Rightarrow> bool" where
  "isinstance_Dist (PyDist d) = True"
| "isinstance_Dist v = False"

text \<open>
  The \<^verbatim>\<open>distribution\<close> argument of \<^verbatim>\<open>Parameter.setDistribution\<close>, by the branch of the
  source's \<^verbatim>\<open>if\<close>/\<^verbatim>\<open>elif\<close> chain it takes: \<^verbatim>\<open>None\<close>, a \<^verbatim>\<open>cp.Dist\<close>, an object with
  \<^verbatim>\<open>__call__\<close> (given by what calling it on a number returns), or anything else.
\<close>

datatype distribution =
    NoneArg
  | DistArg Dist
  | Callable "real \<Rightarrow> pyvalue"
  | OtherArg

section \<open>Dictionaries\<close>

text \<open>
  The contents of a \<^verbatim>\<open>dict\<close>: an association list with distinct keys, in the order in
  which the keys were first inserted. \<^verbatim>\<open>d[k] = v\<close> on a key already present replaces the
  value; lookup is by key.
\<close>

type_synonym ('k, 'v) dict = "('k \<times> 'v) list"

fun dict_setitem :: "('k, 'v) dict \<Rightarrow> 'k \<Rightarrow> 'v \<Rightarrow> ('k, 'v) dict" where
  "dict_setitem [] k v = [(k, v)]"
| "dict_setitem ((k', v') # d) k v =
     (if k' = k then (k, v) # d else (k', v') # dict_setitem d k v)"

definition dict_getitem :: "('k, 'v) dict \<Rightarrow> 'k \<Rightarrow> error + 'v" where
  "dict_getitem d k = (case map_of d k of None \<Rightarrow> Inl KeyError | Some v \<Rightarrow> Inr v)"

subsection \<open>The order of iteration\<close>

text \<open>
  The source files are Python 2 (they use the \<^verbatim>\<open>print\<close> statement), where a \<^verbatim>\<open>dict\<close> is a
  hash table and \<^verbatim>\<open>keys()\<close>, \<^verbatim>\<open>values()\<close> and \<^verbatim>\<open>for k in d\<close> walk its slots in index order.
  The order is therefore that of the interpreter, CPython 2.7 on a 64-bit platform without
  hash randomisation (its default), and the model follows its \<^verbatim>\<open>stringobject.c\<close> and
  \<^verbatim>\<open>dictobject.c\<close> for keys that are strings. No key is ever deleted by the modelled code,
  so a table has no dummy entries and its fill is the number of its keys.

  \<^verbatim>\<open>string_hash\<close>: a \<^verbatim>\<open>long\<close> of 64 bits, computed with wrap-around.
\<close>

definition string_hash :: "string \<Rightarrow> 64 word" where
  "string_hash s =
     (case s of
        [] \<Rightarrow> 0
      | c # cs \<Rightarrow>
          (let x = fold (\<lambda>ch x. (1000003 * x) XOR of_nat (of_char ch)) s
                     (push_bit 7 (of_nat (of_char c)));
               y = x XOR of_nat (length s)
           in if y = - 1 then - 2 else y))"

text \<open>The slots of a table hold a key or nothing; the number of slots is a power of two.\<close>

type_synonym table = "string option list"

text \<open>
  The probe sequence of \<^verbatim>\<open>lookdict_string\<close>: the first slot is \<^verbatim>\<open>hash & mask\<close>, the next
  ones follow \<^verbatim>\<open>i = (i << 2) + i + perturb + 1\<close> with \<^verbatim>\<open>perturb >>= 5\<close>, until a slot is
  empty or holds the key. In CPython the loop ends because a table always has an empty
  slot; the model gives it as many steps as that takes (\<open>perturb\<close> is zero after 13
  shifts, and from then on the sequence visits every slot once in as many steps as there
  are slots) and answers \<open>None\<close> beyond.
\<close>

fun probe :: "nat \<Rightarrow> table \<Rightarrow> string \<Rightarrow> 64 word \<Rightarrow> 64 word \<Rightarrow> nat option" where
  "probe 0 tb key i perturb = None"
| "probe (Suc fuel) tb key i perturb =
     (let i' = push_bit 2 i + i + perturb + 1;
          slot = unat (i' AND of_nat (length tb - 1))
      in if tb ! slot = None \<or> tb ! slot = Some key then Some slot
         else probe fuel tb key i' (drop_bit 5 perturb))"

definition lookdict :: "table \<Rightarrow> string \<Rightarrow> nat option" where
  "lookdict tb key =
     (let hash = string_hash key;
          i = hash AND of_nat (length tb - 1)
      in if tb ! unat i = None \<or> tb ! unat i = Some key then Some (unat i)
         else probe (length tb + 13) tb key i hash)"

text \<open>
  Storing a key in the slot that the lookup finds (\<^verbatim>\<open>insertdict\<close>, and \<^verbatim>\<open>insertdict_clean\<close>
  on the fresh table of a resize, where no slot holds the key yet).
\<close>

definition place :: "table \<Rightarrow> string \<Rightarrow> table" where
  "place tb key = (case lookdict tb key of None \<Rightarrow> tb | Some slot \<Rightarrow> tb[slot := Some key])"

text \<open>The keys of a table in slot order: what iteration yields.\<close>

definition active :: "table \<Rightarrow> string list" where
  "active tb = concat (map (\<lambda>entry. case entry of None \<Rightarrow> [] | Some key \<Rightarrow> [key]) tb)"

text \<open>
  \<^verbatim>\<open>dictresize\<close>: the new size is the first power of two from 8 on that exceeds
  \<^verbatim>\<open>minused\<close>, and the keys move over in the slot order of the old table.
\<close>

function table_size :: "nat \<Rightarrow> nat \<Rightarrow> nat" where
  "table_size newsize minused =
     (if 0 < newsize \<and> newsize \<le> minused then table_size (2 * newsize) minused else newsize)"
  by pat_completeness auto
termination
  by (relation "measure (\<lambda>(newsize, minused). Suc minused - newsize)") auto

definition dictresize :: "table \<Rightarrow> nat \<Rightarrow> table" where
  "dictresize tb minused =
     fold (\<lambda>key new. place new key) (active tb) (replicate (table_size 8 minused) None)"

text \<open>
  \<^verbatim>\<open>PyDict_SetItem\<close>: after a new key the table is resized, to four times its number of
  keys (twice beyond 50000 keys), once it is two thirds full.
\<close>

definition PyDict_SetItem :: "table \<Rightarrow> string \<Rightarrow> table" where
  "PyDict_SetItem tb key =
     (let n_used = length (active tb);
          tb' = place tb key;
          used = length (active tb')
      in if n_used < used \<and> length tb' * 2 \<le> used * 3
         then dictresize tb' ((if 50000 < used then 2 else 4) * used)
         else tb')"

text \<open>The table of a dictionary whose keys were inserted in the given order.\<close>

definition table_of :: "string list \<Rightarrow> table" where
  "table_of keys = fold (\<lambda>key tb. PyDict_SetItem tb key) keys (replicate 8 None)"

fun slot_index :: "table \<Rightarrow> string \<Rightarrow> nat" where
  "slot_index [] key = 0"
| "slot_index (entry # tb) key = (if entry = Some key then 0 else Suc (slot_index tb key))"

text \<open>
  Iteration lists the entries of a dictionary by the slot of their key. \<^verbatim>\<open>d.items()\<close>,
  \<^verbatim>\<open>d.keys()\<close> and \<^verbatim>\<open>d.values()\<close>; \<^verbatim>\<open>for k in d\<close> is \<^verbatim>\<open>d.keys()\<close>.
\<close>

definition dict_items :: "(string, 'v) dict \<Rightarrow> (string \<times> 'v) list" where
  "dict_items d = sort_key (\<lambda>(key, v). slot_index (table_of (map fst d)) key) d"

definition dict_keys :: "(string, 'v) dict \<Rightarrow> string list" where
  "dict_keys d = map fst (dict_items d)"

definition dict_values :: "(string, 'v) dict \<Rightarrow> 'v list" where
  "dict_values d = map snd (dict_items d)"

section \<open>parameters.py\<close>

subsection \<open>class Parameter\<close>

record Parameter =
  name :: string
  "value" :: real
  parameter_space :: pyvalue

text \<open>
  \<^verbatim>\<open>Parameter.setDistribution\<close> mutates the object and may raise. The model returns the
  object as the call leaves it together with the exception, if any: in the generator
  branch the attribute is assigned before the check, so on \<^verbatim>\<open>TypeError\<close> the object
  already holds the rejected value.
\<close>

definition setDistribution :: "Parameter \<Rightarrow> distribution \<Rightarrow> Parameter \<times> error option" where
  "setDistribution self distribution =
     (case distribution of
        NoneArg \<Rightarrow> (self\<lparr>parameter_space := PyNone\<rparr>, None)
      | DistArg d \<Rightarrow> (self\<lparr>parameter_space := PyDist d\<rparr>, None)
      | Callable f \<Rightarrow>
          (let self' = self\<lparr>parameter_space := f (value self)\<rparr>
           in if \<not> isinstance_Dist (parameter_space self')
              then (self', Some (TypeError ''Function does not return a Chaospy distribution''))
              else (self', None))
      | OtherArg \<Rightarrow>
          (self, Some (TypeError ''Argument is neither a function nor a Chaospy distribution'')))"

text \<open>
  \<^verbatim>\<open>Parameter.__init__\<close>: an exception of \<^verbatim>\<open>setDistribution\<close> leaves the constructor, and
  no object is returned. Before the call the attribute \<^verbatim>\<open>parameter_space\<close> does not exist;
  every branch that returns assigns it.
\<close>

definition Parameter_init :: "string \<Rightarrow> real \<Rightarrow> distribution \<Rightarrow> error + Parameter" where
  "Parameter_init n v distribution =
     (case setDistribution \<lparr>name = n, value = v, parameter_space = PyNone\<rparr> distribution of
        (self, None) \<Rightarrow> Inr self
      | (self, Some e) \<Rightarrow> Inl e)"

text \<open>
  \<^verbatim>\<open>getattr(parameter, item)\<close> for the attributes the class defines: the three data
  attributes and its methods. Any other name raises \<^verbatim>\<open>AttributeError\<close>.
\<close>

definition getattr :: "Parameter \<Rightarrow> string \<Rightarrow> error + pyvalue" where
  "getattr parameter item =
     (if item = ''name'' then Inr (PyStr (name parameter))
      else if item = ''value'' then Inr (PyNum (value parameter))
      else if item = ''parameter_space'' then Inr (parameter_space parameter)
      else if item \<in> set [''__init__'', ''setDistribution'', ''setParameterValue'']
      then Inr (PyMethod item)
      else Inl AttributeError)"

subsection \<open>class Parameters\<close>

text \<open>
  An element of \<^verbatim>\<open>parameterlist\<close>: a \<^verbatim>\<open>Parameter\<close> object, or a list
  \<^verbatim>\<open>[name, value, distribution]\<close>.
\<close>

datatype entry =
    ParameterObject Parameter
  | Triple string real distribution

record Parameters =
  parameters :: "(string, Parameter) dict"

fun Parameters_loop :: "(string, Parameter) dict \<Rightarrow> entry list \<Rightarrow> error + (string, Parameter) dict" where
  "Parameters_loop d [] = Inr d"
| "Parameters_loop d (ParameterObject i # parameterlist) =
     Parameters_loop (dict_setitem d (name i) i) parameterlist"
| "Parameters_loop d (Triple n v distribution # parameterlist) =
     (case Parameter_init n v distribution of
        Inl e \<Rightarrow> Inl e
      | Inr p \<Rightarrow> Parameters_loop (dict_setitem d n p) parameterlist)"

definition Parameters_init :: "entry list \<Rightarrow> error + Parameters" where
  "Parameters_init parameterlist =
     (case Parameters_loop [] parameterlist of
        Inl e \<Rightarrow> Inl e
      | Inr d \<Rightarrow> Inr \<lparr>parameters = d\<rparr>)"

text \<open>\<^verbatim>\<open>Parameters.getUncertain\<close>: the loop over \<^verbatim>\<open>self.parameters.values()\<close>.\<close>

fun getUncertain_loop :: "Parameter list \<Rightarrow> string \<Rightarrow> error + pyvalue list" where
  "getUncertain_loop [] item = Inr []"
| "getUncertain_loop (parameter # rest) item =
     (if parameter_space parameter \<noteq> PyNone
      then (case getattr parameter item of
              Inl e \<Rightarrow> Inl e
            | Inr a \<Rightarrow>
                (case getUncertain_loop rest item of
                   Inl e \<Rightarrow> Inl e
                 | Inr items \<Rightarrow> Inr (a # items)))
      else getUncertain_loop rest item)"

definition getUncertain :: "Parameters \<Rightarrow> string \<Rightarrow> error + pyvalue list" where
  "getUncertain self item = getUncertain_loop (dict_values (parameters self)) item"

text \<open>
  \<^verbatim>\<open>Parameters.get\<close> returns a \<^verbatim>\<open>Parameter\<close> when \<^verbatim>\<open>item\<close> is a key and the list of
  that attribute over all parameters otherwise.
\<close>

datatype get_result =
    OneParameter Parameter
  | Attributes "pyvalue list"

fun getattr_all :: "Parameter list \<Rightarrow> string \<Rightarrow> error + pyvalue list" where
  "getattr_all [] item = Inr []"
| "getattr_all (parameter # rest) item =
     (case getattr parameter item of
        Inl e \<Rightarrow> Inl e
      | Inr a \<Rightarrow>
          (case getattr_all rest item of
             Inl e \<Rightarrow> Inl e
           | Inr items \<Rightarrow> Inr (a # items)))"

definition get :: "Parameters \<Rightarrow> string \<Rightarrow> error + get_result" where
  "get self item =
     (if item \<in> set (dict_keys (parameters self))
      then (case dict_getitem (parameters self) item of
              Inl e \<Rightarrow> Inl e
            | Inr p \<Rightarrow> Inr (OneParameter p))
      else (case getattr_all (dict_values (parameters self)) item of
              Inl e \<Rightarrow> Inl e
            | Inr items \<Rightarrow> Inr (Attributes items)))"

subsection \<open>Registration order\<close>

text \<open>
  The vocabulary of the statements about \<^verbatim>\<open>Parameters\<close>: the name under which an entry
  of \<^verbatim>\<open>parameterlist\<close> is registered, the \<^verbatim>\<open>Parameter\<close> objects a list registers, in the
  order of the list, and the uncertain ones among them (those with a distribution).
\<close>

fun entry_name :: "entry \<Rightarrow> string" where
  "entry_name (ParameterObject p) = name p"
| "entry_name (Triple n v distribution) = n"

fun registered :: "entry list \<Rightarrow> error + Parameter list" where
  "registered [] = Inr []"
| "registered (ParameterObject p # parameterlist) =
     (case registered parameterlist of Inl e \<Rightarrow> Inl e | Inr ps \<Rightarrow> Inr (p # ps))"
| "registered (Triple n v distribution # parameterlist) =
     (case Parameter_init n v distribution of
        Inl e \<Rightarrow> Inl e
      | Inr p \<Rightarrow> (case registered parameterlist of Inl e \<Rightarrow> Inl e | Inr ps \<Rightarrow> Inr (p # ps)))"

definition uncertain :: "Parameter list \<Rightarrow> Parameter list" where
  "uncertain ps = filter (\<lambda>p. parameter_space p \<noteq> PyNone) ps"

section \<open>Evaluation nodes\<close>

text \<open>
  One column of the sample matrix. For a one-dimensional distribution the matrix is a
  vector and its elements arrive as bare numbers (\<^verbatim>\<open>float\<close> or \<^verbatim>\<open>int\<close> instances); otherwise
  a node is a sequence of numbers.
\<close>

datatype scalar = PyFloat real | PyInt int

datatype node = Scalar scalar | Sequence "scalar list"

text \<open>
  \<^verbatim>\<open>node[j]\<close>: a bare number has no \<^verbatim>\<open>__getitem__\<close>, and an index past the end of a
  sequence raises \<^verbatim>\<open>IndexError\<close>.
\<close>

fun node_getitem :: "node \<Rightarrow> nat \<Rightarrow> error + scalar" where
  "node_getitem (Scalar s) j = Inl (TypeError ''object has no attribute __getitem__'')"
| "node_getitem (Sequence xs) j = (if j < length xs then Inr (xs ! j) else Inl IndexError)"

text \<open>
  \<^verbatim>\<open>if isinstance(node, float) or isinstance(node, int): node = [node]\<close>
\<close>

fun wrap_node :: "node \<Rightarrow> node" where
  "wrap_node (Scalar s) = Sequence [s]"
| "wrap_node (Sequence xs) = Sequence xs"

text \<open>
  The loop that fills \<^verbatim>\<open>tmp_parameters\<close>, with its counter \<^verbatim>\<open>j\<close>. It is written out three
  times in the source (\<^verbatim>\<open>evaluateNodeFunction\<close>, \<^verbatim>\<open>runParallel\<close>, \<^verbatim>\<open>runParallelFunction\<close>),
  each time after the wrapping above.
\<close>

fun tmp_parameters_loop ::
  "('n, scalar) dict \<Rightarrow> nat \<Rightarrow> 'n list \<Rightarrow> node \<Rightarrow> error + ('n, scalar) dict" where
  "tmp_parameters_loop tmp_parameters j [] nd = Inr tmp_parameters"
| "tmp_parameters_loop tmp_parameters j (parameter # rest) nd =
     (case node_getitem nd j of
        Inl e \<Rightarrow> Inl e
      | Inr x \<Rightarrow> tmp_parameters_loop (dict_setitem tmp_parameters parameter x) (j + 1) rest nd)"

definition set_tmp_parameters :: "'n list \<Rightarrow> node \<Rightarrow> error + ('n, scalar) dict" where
  "set_tmp_parameters tmp_parameter_name nd =
     tmp_parameters_loop [] 0 tmp_parameter_name (wrap_node nd)"

section \<open>scipy\<close>

text \<open>
  \<^verbatim>\<open>scipy.interpolate.InterpolatedUnivariateSpline(x, y, k)\<close> is external. The constructor
  may refuse its input; the object it returns is called on an array of abscissae and,
  when the call returns, yields the array of the interpolant's values there, one per
  abscissa, so the interpolant is a function on the reals and the array call is \<open>map\<close>.
  \<open>call_raises\<close> tells the exception with which such a call ends instead, if any.
\<close>

type_synonym interpolant = "real \<Rightarrow> real"

record scipy =
  InterpolatedUnivariateSpline :: "real list \<Rightarrow> real list \<Rightarrow> nat \<Rightarrow> error + interpolant"
  call_raises :: "interpolant \<Rightarrow> real list \<Rightarrow> error option"

definition call_interpolant :: "interpolant \<Rightarrow> real list \<Rightarrow> real list" where
  "call_interpolant interpolation xs = map interpolation xs"

section \<open>evaluateNodeFunction.py\<close>

text \<open>A feature's value: \<^verbatim>\<open>None\<close>, a number, or an object with \<^verbatim>\<open>__iter__\<close>.\<close>

datatype fvalue = FNone | FNum real | FSeq "fvalue list"

fun has_iter :: "fvalue \<Rightarrow> bool" where
  "has_iter (FSeq xs) = True"
| "has_iter v = False"

text \<open>
  \<^verbatim>\<open>len(x) == 2 and hasattr(x[0], "__iter__") and hasattr(x[1], "__iter__")\<close> on an
  iterable \<^verbatim>\<open>x\<close>, with the two elements when it holds.
\<close>

fun pair_of_iterables :: "fvalue \<Rightarrow> (fvalue \<times> fvalue) option" where
  "pair_of_iterables (FSeq [a, b]) = (if has_iter a \<and> has_iter b then Some (a, b) else None)"
| "pair_of_iterables v = None"

definition array :: "real list \<Rightarrow> fvalue" where
  "array xs = FSeq (map FNum xs)"

text \<open>An entry of the result mapping: \<^verbatim>\<open>(x, U, interpolation)\<close>.\<close>

type_synonym result = "fvalue \<times> fvalue \<times> interpolant option"

text \<open>The tuple \<^verbatim>\<open>data\<close> handed to \<^verbatim>\<open>evaluateNodeFunction\<close>, by position.\<close>

record 'k data =
  cmd :: "string list"
  supress_model_output :: bool
  node :: node
  tmp_parameter_names :: "string list"
  feature_list :: "string list"
  feature_cmd :: "string \<times> string \<times> string"
  kwargs :: 'k

text \<open>
  What \<^verbatim>\<open>subprocess.Popen(cmd, ...).communicate()\<close> leaves behind: the return code, the
  two captured streams, and the contents of the files \<^verbatim>\<open>.tmp_U_<process>.npy\<close> and
  \<^verbatim>\<open>.tmp_t_<process>.npy\<close> in \<^verbatim>\<open>filedir\<close> (\<open>None\<close> when the file is not there).
\<close>

record completed =
  returncode :: int
  ut :: string
  err :: string
  tmp_U :: "real list option"
  tmp_t :: "real list option"

text \<open>
  The surroundings of one call: the name of the current process, the module's directory,
  Python's \<^verbatim>\<open>str\<close> on a number, the subprocess, and the dynamically imported feature class
  (constructed on \<^verbatim>\<open>t, U, **kwargs\<close>, then asked for \<^verbatim>\<open>calculateFeatures(feature_list)\<close>).
  The dictionary the class returns is given by its entries in the order in which the class
  inserted them.
\<close>

record 'k process =
  current_process_name :: string
  filedir :: string
  str :: "scalar \<Rightarrow> string"
  Popen :: "string list \<Rightarrow> completed"
  calculateFeatures ::
    "string \<times> string \<times> string \<Rightarrow> 'k \<Rightarrow> real list \<Rightarrow> real list \<Rightarrow> string list
       \<Rightarrow> error + (string, fvalue) dict"

text \<open>\<^verbatim>\<open>s.split(sep)\<close> for a one-character separator.\<close>

fun split :: "char \<Rightarrow> string \<Rightarrow> string list" where
  "split sep [] = [[]]"
| "split sep (c # cs) =
     (if c = sep then [] # split sep cs
      else (case split sep cs of
              [] \<Rightarrow> [[c]]
            | w # ws \<Rightarrow> (c # w) # ws))"

definition current_process_id :: "string \<Rightarrow> string" where
  "current_process_id process_name =
     (let current_process = split CHR ''-'' process_name
      in if hd current_process = ''PoolWorker'' then last current_process else ''0'')"

text \<open>
  The loop \<^verbatim>\<open>for feature in feature_results\<close> that fills \<^verbatim>\<open>results\<close>, on the entries in
  the order of iteration.
\<close>

fun results_loop ::
  "scipy \<Rightarrow> real list \<Rightarrow> real list \<Rightarrow> (string, result) dict \<Rightarrow> (string, fvalue) dict
     \<Rightarrow> error + (string, result) dict" where
  "results_loop sp ts U results [] = Inr results"
| "results_loop sp ts U results ((feature, tmp_result) # rest) =
     (if has_iter tmp_result
      then (case pair_of_iterables tmp_result of
              Some (a, b) \<Rightarrow>
                (case InterpolatedUnivariateSpline sp ts U 3 of
                   Inl e \<Rightarrow> Inl e
                 | Inr interpolation \<Rightarrow>
                     results_loop sp ts U
                       (dict_setitem results feature (a, b, Some interpolation)) rest)
            | None \<Rightarrow>
                results_loop sp ts U (dict_setitem results feature (FNone, tmp_result, None)) rest)
      else results_loop sp ts U (dict_setitem results feature (FNone, tmp_result, None)) rest)"

text \<open>The command line handed to \<^verbatim>\<open>subprocess.Popen\<close>.\<close>

definition simulation_cmd :: "'k process \<Rightarrow> 'k data \<Rightarrow> (string, scalar) dict \<Rightarrow> string list" where
  "simulation_cmd env dat tmp_parameters =
     (let current_process = current_process_id (current_process_name env)
      in cmd dat
           @ [''--CPU'', current_process, ''--save_path'', filedir env, ''--parameters'']
           @ concat (map (\<lambda>(parameter, x). [parameter, str env x]) (dict_items tmp_parameters)))"

text \<open>
  \<^verbatim>\<open>evaluateNodeFunction\<close> returns what it printed and either the exception that ended it
  or the result mapping.
\<close>

definition evaluateNodeFunction ::
  "scipy \<Rightarrow> 'k process \<Rightarrow> 'k data \<Rightarrow> string list \<times> (error + (string, result) dict)" where
  "evaluateNodeFunction sp env dat =
     (case set_tmp_parameters (tmp_parameter_names dat) (node dat) of
        Inl e \<Rightarrow> ([], Inl e)
      | Inr tmp_parameters \<Rightarrow>
          (let simulation = Popen env (simulation_cmd env dat tmp_parameters);
               printed = (if \<not> supress_model_output dat then [ut simulation] else [])
           in if returncode simulation \<noteq> 0
              then (printed @ [ut simulation, ''Error when running simulation:'', err simulation],
                    Inl (SystemExit 1))
              else (case tmp_U simulation of
                      None \<Rightarrow> (printed, Inl IOError)
                    | Some U \<Rightarrow>
                  (case tmp_t simulation of
                      None \<Rightarrow> (printed, Inl IOError)
                    | Some ts \<Rightarrow>
                  (case calculateFeatures env (feature_cmd dat) (kwargs dat) ts U (feature_list dat) of
                      Inl e \<Rightarrow> (printed, Inl e)
                    | Inr feature_results \<Rightarrow>
                  (case results_loop sp ts U [] (dict_items feature_results) of
                      Inl e \<Rightarrow> (printed, Inl e)
                    | Inr results \<Rightarrow>
                  (case InterpolatedUnivariateSpline sp ts U 3 of
                      Inl e \<Rightarrow> (printed, Inl e)
                    | Inr interpolation \<Rightarrow>
                      (printed,
                       Inr (dict_setitem results ''directComparison''
                              (array ts, array U, Some interpolation))))))))))"

section \<open>chaospy, numpy and the simulator\<close>

text \<open>
  \<^verbatim>\<open>cp.J(*args)\<close>, when it returns, joins its arguments, in the order given, into one
  distribution; the model records the argument list. The number of axes of the joint
  distribution is the sum of those of its arguments (an argument that is no distribution
  contributes none).
\<close>

datatype Joint = J "pyvalue list"

fun axes :: "pyvalue \<Rightarrow> nat" where
  "axes (PyDist d) = dist_len d"
| "axes v = 0"

fun len_Joint :: "Joint \<Rightarrow> nat" where
  "len_Joint (J args) = sum_list (map axes args)"

text \<open>
  The chaospy and numpy calls of \<^verbatim>\<open>uncertainty.py\<close>, as parameters: \<open>'p\<close> is a polynomial
  of the basis (\<^verbatim>\<open>len(P)\<close> is the length of the list), \<open>'u\<close> the fitted expansion.
  \<open>sample\<close> returns the columns of the sample matrix, that is the rows of \<^verbatim>\<open>nodes.T\<close>.
  Every call may raise. For \<^verbatim>\<open>cp.J\<close>, \<^verbatim>\<open>cp.orth_ttr\<close>, the sampler, the numpy indexing of
  \<^verbatim>\<open>solves\<close> (\<^verbatim>\<open>np.array\<close>, \<^verbatim>\<open>solves[:, 0]\<close>, \<^verbatim>\<open>np.argmax\<close>) and \<^verbatim>\<open>cp.fit_regression\<close> a field
  \<open>\<dots>_raises\<close> tells the exception with which the call ends, if any, and the field
  without the suffix what it returns otherwise; the calls of the statistics return an
  exception or a value.
\<close>

record ('p, 'u) chaospy =
  J_raises :: "pyvalue list \<Rightarrow> error option"
  orth_ttr :: "nat \<Rightarrow> Joint \<Rightarrow> 'p list"
  orth_ttr_raises :: "nat \<Rightarrow> Joint \<Rightarrow> error option"
  sample :: "Joint \<Rightarrow> nat \<Rightarrow> string \<Rightarrow> node list"
  sample_raises :: "Joint \<Rightarrow> nat \<Rightarrow> string \<Rightarrow> error option"
  array_raises :: "(real list \<times> real list \<times> interpolant) list \<Rightarrow> error option"
  fit_regression :: "'p list \<Rightarrow> node list \<Rightarrow> real list list \<Rightarrow> string \<Rightarrow> 'u"
  fit_regression_raises :: "'p list \<Rightarrow> node list \<Rightarrow> real list list \<Rightarrow> string \<Rightarrow> error option"
  cp_E :: "'u \<Rightarrow> Joint \<Rightarrow> error + real list"
  cp_Var :: "'u \<Rightarrow> Joint \<Rightarrow> error + real list"
  Sens_t :: "'u \<Rightarrow> Joint \<Rightarrow> error + real list list"
  cp_Corr :: "'p list \<Rightarrow> Joint \<Rightarrow> error + real list list"
  call_U_hat :: "'u \<Rightarrow> node list \<Rightarrow> error + real list list"
  percentile :: "real list list \<Rightarrow> nat \<Rightarrow> nat \<Rightarrow> error + real list"

text \<open>
  \<^verbatim>\<open>np.argmax\<close> on a non-empty list of lengths: the index of the first occurrence of the
  maximum.
\<close>

fun argmax :: "nat list \<Rightarrow> nat" where
  "argmax [] = 0"
| "argmax [x] = 0"
| "argmax (x # y # ys) =
     (let i = argmax (y # ys) in if (y # ys) ! i \<le> x then 0 else Suc i)"

text \<open>
  The simulator: the module globals \<^verbatim>\<open>modelfile\<close> and \<^verbatim>\<open>modelpath\<close> that
  \<^verbatim>\<open>createPCExpansion\<close> reads, the class \<^verbatim>\<open>Simulation\<close> of the module \<^verbatim>\<open>simulation\<close>
  (constructed, \<^verbatim>\<open>set\<close>, run, then asked for \<^verbatim>\<open>(V, t)\<close>), and \<^verbatim>\<open>model.runParallel\<close>, which
  leaves the files \<^verbatim>\<open>tmp_U.npy\<close> and \<^verbatim>\<open>tmp_t.npy\<close> (\<open>None\<close> when a file is not there).
\<close>

record model =
  modelfile :: string
  modelpath :: string
  Simulation ::
    "string \<Rightarrow> string \<Rightarrow> (pyvalue, scalar) dict \<Rightarrow> error + real list \<times> real list"
  model_runParallel ::
    "(pyvalue, scalar) dict \<Rightarrow> error + real list option \<times> real list option"

section \<open>uncertainty.py\<close>

text \<open>One entry of \<^verbatim>\<open>solves\<close>: \<^verbatim>\<open>(t, V, interpolation)\<close>.\<close>

type_synonym solve = "real list \<times> real list \<times> interpolant"

type_synonym feature = "real list \<Rightarrow> real list"

text \<open>How a method ends: it returns \<^verbatim>\<open>None\<close> or a number, or an exception leaves it.\<close>

datatype outcome = Return_None | Return_Int int | Raise error

text \<open>
  The attributes of \<^verbatim>\<open>self\<close> that the modelled methods read or write. The source's
  \<^verbatim>\<open>self.parameters\<close>, \<^verbatim>\<open>self.M\<close>, \<^verbatim>\<open>self.t\<close>, \<^verbatim>\<open>self.P\<close> and \<^verbatim>\<open>self.E\<close> carry the prefix
  \<open>self_\<close> here. \<open>uncertain_parameters\<close> is the attribute \<^verbatim>\<open>self.parameters.uncertain_parameters\<close>,
  which the class in \<^verbatim>\<open>parameters.py\<close> does not declare; it is taken as given.
  Figures and the virtual display are not modelled; of the console output, what
  \<^verbatim>\<open>createPCExpansion\<close> prints is (the methods that call it print parameter names, shapes
  and fixed messages).
\<close>

record ('p, 'u) UncertaintyEstimation =
  self_parameters :: Parameters
  uncertain_parameters :: "string list"
  tmp_parameter_name :: "pyvalue list"
  features :: "feature list"
  self_M :: nat
  mc_samples :: nat
  U_hat :: "'u option"
  distribution :: "Joint option"
  self_t :: "real list option"
  self_P :: "'p list option"
  self_E :: "real list option"
  Var :: "real list option"
  sensitivity :: "real list list option"
  U_mc :: "real list list option"
  p_05 :: "real list option"
  p_95 :: "real list option"
  Corr :: "real list list option"

definition UncertaintyEstimation_init ::
  "Parameters \<Rightarrow> string list \<Rightarrow> ('p, 'u) UncertaintyEstimation" where
  "UncertaintyEstimation_init params names =
     \<lparr>self_parameters = params, uncertain_parameters = names, tmp_parameter_name = [],
      features = [], self_M = 3, mc_samples = 10 ^ 3, U_hat = None, distribution = None,
      self_t = None, self_P = None, self_E = None, Var = None, sensitivity = None,
      U_mc = None, p_05 = None, p_95 = None, Corr = None\<rparr>"

text \<open>
  \<^verbatim>\<open>UncertaintyEstimation.runParallel\<close>: one node through \<^verbatim>\<open>self.model.runParallel\<close>.
\<close>

definition runParallel ::
  "scipy \<Rightarrow> model \<Rightarrow> ('p, 'u) UncertaintyEstimation \<Rightarrow> node \<Rightarrow> error + solve" where
  "runParallel sp mdl self nd =
     (case set_tmp_parameters (tmp_parameter_name self) nd of
        Inl e \<Rightarrow> Inl e
      | Inr tmp_parameters \<Rightarrow>
     (case model_runParallel mdl tmp_parameters of
        Inl e \<Rightarrow> Inl e
      | Inr (None, f) \<Rightarrow> Inl IOError
      | Inr (Some V, None) \<Rightarrow> Inl IOError
      | Inr (Some V, Some ts) \<Rightarrow>
          (let V' = fold (\<lambda>feature V. feature V) (features self) V
           in (case InterpolatedUnivariateSpline sp ts V' 3 of
                 Inl e \<Rightarrow> Inl e
               | Inr interpolation \<Rightarrow> Inr (ts, V', interpolation)))))"

text \<open>
  The local function \<^verbatim>\<open>runParallelFunction\<close> of \<^verbatim>\<open>createPCExpansion\<close>:
  \<^verbatim>\<open>all_data = (node, tmp_parameter_name, modelfile, modelpath, features)\<close>.
\<close>

definition runParallelFunction ::
  "scipy \<Rightarrow> model \<Rightarrow> node \<times> pyvalue list \<times> string \<times> string \<times> feature list \<Rightarrow> error + solve" where
  "runParallelFunction sp mdl all_data =
     (case all_data of (nd, names, mfile, mpath, feats) \<Rightarrow>
     (case set_tmp_parameters names nd of
        Inl e \<Rightarrow> Inl e
      | Inr tmp_parameters \<Rightarrow>
     (case Simulation mdl mfile mpath tmp_parameters of
        Inl e \<Rightarrow> Inl e
      | Inr (V, ts) \<Rightarrow>
          (let V' = fold (\<lambda>feature V. feature V) feats V
           in (case InterpolatedUnivariateSpline sp ts V' 3 of
                 Inl e \<Rightarrow> Inl e
               | Inr interpolation \<Rightarrow> Inr (ts, V', interpolation))))))"

text \<open>
  \<^verbatim>\<open>for data in all_data: solves.append(runParallelFunction(data))\<close>: the nodes are
  evaluated one after the other, and the first exception ends the loop.
\<close>

fun solves_loop ::
  "scipy \<Rightarrow> model \<Rightarrow> (node \<times> pyvalue list \<times> string \<times> string \<times> feature list) list
     \<Rightarrow> error + solve list" where
  "solves_loop sp mdl [] = Inr []"
| "solves_loop sp mdl (dat # rest) =
     (case runParallelFunction sp mdl dat of
        Inl e \<Rightarrow> Inl e
      | Inr s \<Rightarrow>
          (case solves_loop sp mdl rest of
             Inl e \<Rightarrow> Inl e
           | Inr solves \<Rightarrow> Inr (s # solves)))"

text \<open>
  The first lines of \<^verbatim>\<open>createPCExpansion\<close>: the arguments of \<^verbatim>\<open>cp.J\<close> and the value of
  \<^verbatim>\<open>self.tmp_parameter_name\<close>. With a parameter name, \<^verbatim>\<open>self.parameters.get\<close> must return a
  \<^verbatim>\<open>Parameter\<close>: the list it returns for a name that is no key has no attribute
  \<^verbatim>\<open>parameter_space\<close>.
\<close>

definition spaces_and_names ::
  "Parameters \<Rightarrow> string option \<Rightarrow> error + pyvalue list \<times> pyvalue list" where
  "spaces_and_names params parameter_name =
     (case parameter_name of
        None \<Rightarrow>
          (case getUncertain params ''parameter_space'' of
             Inl e \<Rightarrow> Inl e
           | Inr spaces \<Rightarrow>
               (case getUncertain params ''name'' of
                  Inl e \<Rightarrow> Inl e
                | Inr names \<Rightarrow> Inr (spaces, names)))
      | Some pn \<Rightarrow>
          (case get params pn of
             Inl e \<Rightarrow> Inl e
           | Inr (OneParameter p) \<Rightarrow> Inr ([parameter_space p], [PyStr pn])
           | Inr (Attributes items) \<Rightarrow> Inl AttributeError))"

text \<open>
  The alignment at the end of \<^verbatim>\<open>createPCExpansion\<close>: the time vector of the entry that
  \<^verbatim>\<open>np.argmax\<close> picks among the lengths, and every interpolant evaluated on it.
\<close>

definition align :: "solve list \<Rightarrow> real list \<times> real list list" where
  "align solves =
     (let lengths = map (\<lambda>s. length (fst s)) solves;
          index_max_len = argmax lengths;
          ts = fst (solves ! index_max_len);
          interpolated_solves =
            map (\<lambda>(s, V, interpolation). call_interpolant interpolation ts) solves
      in (ts, interpolated_solves))"

text \<open>
  \<^verbatim>\<open>nodes = self.distribution.sample(2*len(self.P), "M")\<close>: the regression nodes.
\<close>

definition regression_nodes :: "('p, 'u) chaospy \<Rightarrow> 'p list \<Rightarrow> Joint \<Rightarrow> node list" where
  "regression_nodes cp basis joint = sample cp joint (2 * length basis) ''M''"

text \<open>
  The first stage of \<^verbatim>\<open>createPCExpansion\<close>, up to the nodes: \<^verbatim>\<open>self.tmp_parameter_name\<close>,
  \<^verbatim>\<open>self.distribution = cp.J(*parameter_space)\<close>, \<^verbatim>\<open>self.P = cp.orth_ttr(self.M,
  self.distribution)\<close> and the regression nodes, each attribute assigned once its call has
  returned. The result is the object as the stage leaves it and either the exception that
  ended it or the basis and the nodes.
\<close>

definition generate_nodes ::
  "('p, 'u) chaospy \<Rightarrow> ('p, 'u) UncertaintyEstimation \<Rightarrow> string option
     \<Rightarrow> ('p, 'u) UncertaintyEstimation \<times> (error + 'p list \<times> node list)" where
  "generate_nodes cp self parameter_name =
     (case spaces_and_names (self_parameters self) parameter_name of
        Inl e \<Rightarrow> (self, Inl e)
      | Inr (spaces, names) \<Rightarrow>
     (let self1 = self\<lparr>tmp_parameter_name := names\<rparr>
      in case J_raises cp spaces of
        Some e \<Rightarrow> (self1, Inl e)
      | None \<Rightarrow>
     (let joint = J spaces;
          self2 = self1\<lparr>distribution := Some joint\<rparr>
      in case orth_ttr_raises cp (self_M self) joint of
        Some e \<Rightarrow> (self2, Inl e)
      | None \<Rightarrow>
     (let basis = orth_ttr cp (self_M self) joint;
          self3 = self2\<lparr>self_P := Some basis\<rparr>
      in case sample_raises cp joint (2 * length basis) ''M'' of
        Some e \<Rightarrow> (self3, Inl e)
      | None \<Rightarrow> (self3, Inr (basis, regression_nodes cp basis joint))))))"

text \<open>
  The loop \<^verbatim>\<open>for inter in solves[:, 2]: interpolated_solves.append(inter(self.t))\<close> ends
  with the exception of the first call that raises.
\<close>

fun interpolants_raise :: "scipy \<Rightarrow> solve list \<Rightarrow> real list \<Rightarrow> error option" where
  "interpolants_raise sp [] ts = None"
| "interpolants_raise sp ((s, V, interpolation) # solves) ts =
     (case call_raises sp interpolation ts of
        Some e \<Rightarrow> Some e
      | None \<Rightarrow> interpolants_raise sp solves ts)"

text \<open>
  The last stage of \<^verbatim>\<open>createPCExpansion\<close>, from \<^verbatim>\<open>solves = np.array(solves)\<close> on: the
  reference grid goes to \<^verbatim>\<open>self.t\<close>, the interpolants are evaluated on it, and the
  regression is fitted. The function has no \<^verbatim>\<open>return\<close> statement: it returns \<^verbatim>\<open>None\<close> or an
  exception leaves it.
\<close>

definition fit_expansion ::
  "scipy \<Rightarrow> ('p, 'u) chaospy \<Rightarrow> ('p, 'u) UncertaintyEstimation \<Rightarrow> 'p list \<Rightarrow> node list
     \<Rightarrow> solve list \<Rightarrow> ('p, 'u) UncertaintyEstimation \<times> outcome" where
  "fit_expansion sp cp self basis nodes solves =
     (case array_raises cp solves of
        Some e \<Rightarrow> (self, Raise e)
      | None \<Rightarrow>
     (case align solves of (ts, interpolated_solves) \<Rightarrow>
     (let self1 = self\<lparr>self_t := Some ts\<rparr>
      in case interpolants_raise sp solves ts of
        Some e \<Rightarrow> (self1, Raise e)
      | None \<Rightarrow>
     (case fit_regression_raises cp basis nodes interpolated_solves ''T'' of
        Some e \<Rightarrow> (self1, Raise e)
      | None \<Rightarrow>
          (self1\<lparr>U_hat := Some (fit_regression cp basis nodes interpolated_solves ''T'')\<rparr>,
           Return_None)))))"

text \<open>
  \<^verbatim>\<open>createPCExpansion\<close>: the nodes, the list \<^verbatim>\<open>all_data\<close>, the evaluations, the fit.
  \<^verbatim>\<open>print all_data[0]\<close> raises \<^verbatim>\<open>IndexError\<close> when there is no node.
\<close>

definition createPCExpansion ::
  "scipy \<Rightarrow> ('p, 'u) chaospy \<Rightarrow> model \<Rightarrow> ('p, 'u) UncertaintyEstimation \<Rightarrow> string option
     \<Rightarrow> ('p, 'u) UncertaintyEstimation \<times> outcome" where
  "createPCExpansion sp cp mdl self parameter_name =
     (case generate_nodes cp self parameter_name of
        (self1, Inl e) \<Rightarrow> (self1, Raise e)
      | (self1, Inr (basis, nodes)) \<Rightarrow>
          (let all_data =
                 map (\<lambda>nd. (nd, tmp_parameter_name self1, modelfile mdl, modelpath mdl,
                             features self1)) nodes
           in if all_data = [] then (self1, Raise IndexError)
              else (case solves_loop sp mdl all_data of
                      Inl e \<Rightarrow> (self1, Raise e)
                    | Inr solves \<Rightarrow> fit_expansion sp cp self1 basis nodes solves)))"

text \<open>
  What \<^verbatim>\<open>createPCExpansion\<close> prints: the tuple \<^verbatim>\<open>all_data[0]\<close> of the first node, then, at
  the start of every call of \<^verbatim>\<open>runParallelFunction\<close>, the line \<^verbatim>\<open>haha\<close>, the model file and
  the model path. The calls are those up to and including the first that raises.
\<close>

datatype printed =
    Line string
  | Tuple "node \<times> pyvalue list \<times> string \<times> string \<times> feature list"

fun calls_started ::
  "scipy \<Rightarrow> model \<Rightarrow> (node \<times> pyvalue list \<times> string \<times> string \<times> feature list) list \<Rightarrow> nat" where
  "calls_started sp mdl [] = 0"
| "calls_started sp mdl (dat # rest) =
     (case runParallelFunction sp mdl dat of
        Inl e \<Rightarrow> 1
      | Inr s \<Rightarrow> Suc (calls_started sp mdl rest))"

definition runParallelFunction_prints ::
  "node \<times> pyvalue list \<times> string \<times> string \<times> feature list \<Rightarrow> printed list" where
  "runParallelFunction_prints all_data =
     (case all_data of (nd, names, mfile, mpath, feats) \<Rightarrow> [Line ''haha'', Line mfile, Line mpath])"

definition createPCExpansion_prints ::
  "scipy \<Rightarrow> ('p, 'u) chaospy \<Rightarrow> model \<Rightarrow> ('p, 'u) UncertaintyEstimation \<Rightarrow> string option
     \<Rightarrow> printed list" where
  "createPCExpansion_prints sp cp mdl self parameter_name =
     (case generate_nodes cp self parameter_name of
        (self1, Inl e) \<Rightarrow> []
      | (self1, Inr (basis, nodes)) \<Rightarrow>
          (let all_data =
                 map (\<lambda>nd. (nd, tmp_parameter_name self1, modelfile mdl, modelpath mdl,
                             features self1)) nodes
           in if all_data = [] then []
              else Tuple (hd all_data)
                     # concat (map runParallelFunction_prints
                                 (take (calls_started sp mdl all_data) all_data))))"

text \<open>
  The statements inside \<^verbatim>\<open>try\<close>: each call either raises, and the attributes assigned so
  far stay, or hands its value on. They read \<^verbatim>\<open>self.U_hat\<close>, \<^verbatim>\<open>self.distribution\<close> and
  \<^verbatim>\<open>self.P\<close>, which \<^verbatim>\<open>createPCExpansion\<close> has assigned when it returns; on an object
  where they are still \<^verbatim>\<open>None\<close> the first chaospy call fails.
\<close>

definition try_call :: "'s \<Rightarrow> error + 'a \<Rightarrow> ('a \<Rightarrow> 's \<times> outcome) \<Rightarrow> 's \<times> outcome" where
  "try_call self call continue =
     (case call of Inl e \<Rightarrow> (self, Raise e) | Inr v \<Rightarrow> continue v)"

text \<open>\<^verbatim>\<open>except MemoryError:\<close> with what the handler makes the method return.\<close>

definition except_MemoryError :: "'s \<times> outcome \<Rightarrow> outcome \<Rightarrow> 's \<times> outcome" where
  "except_MemoryError r handler =
     (case r of (self, Raise MemoryError) \<Rightarrow> (self, handler) | other \<Rightarrow> other)"

text \<open>\<^verbatim>\<open>samples = self.distribution.sample(self.mc_samples, "M")\<close>\<close>

definition samples :: "('p, 'u) chaospy \<Rightarrow> Joint \<Rightarrow> nat \<Rightarrow> error + node list" where
  "samples cp joint n =
     (case sample_raises cp joint n ''M'' of
        Some e \<Rightarrow> Inl e
      | None \<Rightarrow> Inr (sample cp joint n ''M''))"

definition singleParameters_try ::
  "('p, 'u) chaospy \<Rightarrow> ('p, 'u) UncertaintyEstimation \<Rightarrow> ('p, 'u) UncertaintyEstimation \<times> outcome" where
  "singleParameters_try cp self =
     (case (U_hat self, distribution self) of
        (Some U, Some joint) \<Rightarrow>
          try_call self (cp_E cp U joint) (\<lambda>v. let self1 = self\<lparr>self_E := Some v\<rparr> in
          try_call self1 (cp_Var cp U joint) (\<lambda>v. let self2 = self1\<lparr>Var := Some v\<rparr> in
          try_call self2 (samples cp joint (mc_samples self2)) (\<lambda>nodes.
          try_call self2 (call_U_hat cp U nodes) (\<lambda>mc. let self3 = self2\<lparr>U_mc := Some mc\<rparr> in
          try_call self3 (percentile cp mc 5 1) (\<lambda>v. let self4 = self3\<lparr>p_05 := Some v\<rparr> in
          try_call self4 (percentile cp mc 95 1) (\<lambda>v.
            (self4\<lparr>p_95 := Some v\<rparr>, Return_None)))))))
      | other \<Rightarrow> (self, Raise (ModelError ''no expansion'')))"

fun singleParameters_loop ::
  "scipy \<Rightarrow> ('p, 'u) chaospy \<Rightarrow> model \<Rightarrow> ('p, 'u) UncertaintyEstimation \<Rightarrow> string list
     \<Rightarrow> ('p, 'u) UncertaintyEstimation \<times> outcome" where
  "singleParameters_loop sp cp mdl self [] = (self, Return_None)"
| "singleParameters_loop sp cp mdl self (uncertain_parameter # rest) =
     (case createPCExpansion sp cp mdl self (Some uncertain_parameter) of
        (self1, Raise e) \<Rightarrow> (self1, Raise e)
      | (self1, r) \<Rightarrow>
          if r = Return_Int (- 1) then (self1, Return_Int (- 1))
          else (case except_MemoryError (singleParameters_try cp self1) (Return_Int (- 1)) of
                  (self2, Return_None) \<Rightarrow> singleParameters_loop sp cp mdl self2 rest
                | other \<Rightarrow> other))"

definition singleParameters ::
  "scipy \<Rightarrow> ('p, 'u) chaospy \<Rightarrow> model \<Rightarrow> ('p, 'u) UncertaintyEstimation
     \<Rightarrow> ('p, 'u) UncertaintyEstimation \<times> outcome" where
  "singleParameters sp cp mdl self =
     singleParameters_loop sp cp mdl self (uncertain_parameters self)"

definition allParameters_try ::
  "('p, 'u) chaospy \<Rightarrow> ('p, 'u) UncertaintyEstimation \<Rightarrow> ('p, 'u) UncertaintyEstimation \<times> outcome" where
  "allParameters_try cp self =
     (case (U_hat self, distribution self, self_P self) of
        (Some U, Some joint, Some basis) \<Rightarrow>
          try_call self (cp_E cp U joint) (\<lambda>v. let self1 = self\<lparr>self_E := Some v\<rparr> in
          try_call self1 (cp_Var cp U joint) (\<lambda>v. let self2 = self1\<lparr>Var := Some v\<rparr> in
          try_call self2 (Sens_t cp U joint) (\<lambda>v. let self3 = self2\<lparr>sensitivity := Some v\<rparr> in
          try_call self3 (samples cp joint (mc_samples self3)) (\<lambda>nodes.
          try_call self3 (call_U_hat cp U nodes) (\<lambda>mc. let self4 = self3\<lparr>U_mc := Some mc\<rparr> in
          try_call self4 (percentile cp mc 5 1) (\<lambda>v. let self5 = self4\<lparr>p_05 := Some v\<rparr> in
          try_call self5 (percentile cp mc 95 1) (\<lambda>v. let self6 = self5\<lparr>p_95 := Some v\<rparr> in
          try_call self6 (cp_Corr cp basis joint) (\<lambda>v.
            (self6\<lparr>Corr := Some v\<rparr>, Return_None)))))))))
      | other \<Rightarrow> (self, Raise (ModelError ''no expansion'')))"

definition allParameters ::
  "scipy \<Rightarrow> ('p, 'u) chaospy \<Rightarrow> model \<Rightarrow> ('p, 'u) UncertaintyEstimation
     \<Rightarrow> ('p, 'u) UncertaintyEstimation \<times> outcome" where
  "allParameters sp cp mdl self =
     (if length (uncertain_parameters self) \<le> 1
      then (if U_hat self = None
            then (case singleParameters sp cp mdl self of
                    (self1, Raise e) \<Rightarrow> (self1, Raise e)
                  | (self1, r) \<Rightarrow> (self1, Return_None))
            else (self, Return_None))
      else (case createPCExpansion sp cp mdl self None of
              (self1, Raise e) \<Rightarrow> (self1, Raise e)
            | (self1, r) \<Rightarrow>
                if r = Return_Int (- 1) then (self1, Return_Int (- 1))
                else except_MemoryError (allParameters_try cp self1) Return_None))"

text \<open>The statistics a run has produced so far.\<close>

definition statistics ::
  "('p, 'u) UncertaintyEstimation \<Rightarrow>
     real list option \<times> real list option \<times> real list option \<times> real list option
       \<times> real list list option" where
  "statistics self = (self_E self, Var self, p_05 self, p_95 self, sensitivity self)"

section \<open>The polynomial-chaos model of the specification\<close>

text \<open>
  Modelled from the spec: the orthogonal basis of total degree at most \<open>M\<close> (section 4.4).
  The code obtains it from \<^verbatim>\<open>cp.orth_ttr\<close>, which is chaospy's and not in the repository's
  files. A basis polynomial is named by its multi-index, the degree it has in each of the
  \<open>d\<close> uncertain parameters; the zero index, listed first, names the constant
  polynomial \<open>\<Phi>\<^sub>0 \<equiv> 1\<close>.
\<close>

fun multi_indices :: "nat \<Rightarrow> nat \<Rightarrow> nat list list" where
  "multi_indices 0 m = [[]]"
| "multi_indices (Suc d) m =
     concat (map (\<lambda>i. map ((#) i) (multi_indices d (m - i))) [0..<Suc m])"

text \<open>
  Modelled from the spec: the PCEModel of section 3, a basis and one coefficient vector
  per time step of the reference grid, with the second moments \<open>E[\<Phi>\<^sub>k\<^sup>2]\<close> that the
  variance formula of section 4.5 uses. The code keeps it inside the object that
  \<^verbatim>\<open>cp.fit_regression\<close> returns.
\<close>

record PCEModel =
  basis_indices :: "nat list list"
  basis_norms :: "real list"
  coefficients :: "real list list"

text \<open>
  Modelled from the spec: a PCEModel of total degree \<open>m\<close> over \<open>d\<close> parameters on a grid
  of \<open>n\<close> time steps (sections 3 and 4.4); stands for the shape of what \<^verbatim>\<open>cp.orth_ttr\<close> and
  \<^verbatim>\<open>cp.fit_regression\<close> return.
\<close>

definition fitted :: "nat \<Rightarrow> nat \<Rightarrow> nat \<Rightarrow> PCEModel \<Rightarrow> bool" where
  "fitted d m n pce \<longleftrightarrow>
     basis_indices pce = multi_indices d m
   \<and> length (basis_norms pce) = length (basis_indices pce)
   \<and> length (coefficients pce) = n
   \<and> (\<forall>c \<in> set (coefficients pce). length c = length (basis_indices pce))"

text \<open>
  Modelled from the spec: \<open>Mean(t) = c\<^sub>0(t)\<close> (section 4.5); stands for \<^verbatim>\<open>cp.E\<close>.
\<close>

definition Mean :: "PCEModel \<Rightarrow> nat \<Rightarrow> real" where
  "Mean pce t = coefficients pce ! t ! 0"

text \<open>
  Modelled from the spec: \<open>Variance(t) = \<Sum>\<^bsub>k \<noteq> 0\<^esub> c\<^sub>k(t)\<^sup>2 \<cdot> E[\<Phi>\<^sub>k\<^sup>2]\<close> (section 4.5);
  stands for \<^verbatim>\<open>cp.Var\<close>.
\<close>

definition Variance :: "PCEModel \<Rightarrow> nat \<Rightarrow> real" where
  "Variance pce t =
     (\<Sum>k \<leftarrow> [1..<length (basis_indices pce)]. (coefficients pce ! t ! k)\<^sup>2 * basis_norms pce ! k)"

text \<open>
  Modelled from the spec: the expansion \<open>U_hat(\<xi>, t) = \<Sum>\<^sub>k c\<^sub>k(t) \<cdot> \<Phi>\<^sub>k(\<xi>)\<close> at one node,
  given the values \<open>\<Phi>\<^sub>k(\<xi>)\<close> (section 4.4); stands for calling the fitted expansion.
\<close>

definition U_hat_at :: "real list \<Rightarrow> real list \<Rightarrow> real" where
  "U_hat_at phis c = (\<Sum>(phi, ck) \<leftarrow> zip phis c. ck * phi)"

text \<open>
  Modelled from the spec: the sum of squared residuals of the least-squares regression of
  section 4.4, for one time column: \<open>design\<close> holds the values of the basis at each node,
  \<open>ys\<close> the outputs observed there. Stands for the objective of \<^verbatim>\<open>cp.fit_regression\<close>.
\<close>

definition squared_error :: "real list list \<Rightarrow> real list \<Rightarrow> real list \<Rightarrow> real" where
  "squared_error design ys c = (\<Sum>(phis, y) \<leftarrow> zip design ys. (y - U_hat_at phis c)\<^sup>2)"

text \<open>
  Modelled from the spec: a solution of that regression (section 4.4), a coefficient
  vector whose sum of squared residuals no other vector of its length undercuts; stands
  for what \<^verbatim>\<open>cp.fit_regression\<close> returns.
\<close>

definition least_squares :: "real list list \<Rightarrow> real list \<Rightarrow> real list \<Rightarrow> bool" where
  "least_squares design ys c \<longleftrightarrow>
     (\<forall>c'. length c' = length c \<longrightarrow> squared_error design ys c \<le> squared_error design ys c')"

text \<open>
  Modelled from the spec: the time column \<open>t\<close> of the aligned output matrix, one row per
  node (section 4.4); stands for the matrix handed to \<^verbatim>\<open>cp.fit_regression\<close>.
\<close>

definition column :: "real list list \<Rightarrow> nat \<Rightarrow> real list" where
  "column outputs t = map (\<lambda>row. row ! t) outputs"

text \<open>
  Modelled from the spec: the coefficients of a PCEModel are fitted by regression, each
  time column independently (section 4.4). \<open>Phi k x\<close> is the value at the node \<open>x\<close> of
  the basis polynomial with multi-index \<open>k\<close>. Stands for \<^verbatim>\<open>cp.fit_regression\<close>.
\<close>

definition regression_fit ::
  "(nat list \<Rightarrow> 'x \<Rightarrow> real) \<Rightarrow> 'x list \<Rightarrow> real list list \<Rightarrow> PCEModel \<Rightarrow> bool" where
  "regression_fit Phi nodes outputs pce \<longleftrightarrow>
     (\<forall>t < length (coefficients pce).
        least_squares (map (\<lambda>x. map (\<lambda>k. Phi k x) (basis_indices pce)) nodes) (column outputs t)
          (coefficients pce ! t))"

section \<open>Example surroundings\<close>

text \<open>
  Small concrete collaborators on which the theorems below are run: a spline constructor
  that wants more than \<open>k\<close> points and as many ordinates as abscissae, a basis of
  \<open>M + 1\<close> polynomials, a sampler that returns the nodes \<open>0, 1, 2, ...\<close> on every axis, a
  regression that keeps its data, and a simulator whose output is longer for later nodes.
  None of the library calls raises.
\<close>

definition scipy_example :: scipy where
  "scipy_example =
     \<lparr>InterpolatedUnivariateSpline =
        (\<lambda>xs ys k. if length xs \<le> k \<or> length xs \<noteq> length ys then Inl (ModelError ''spline'')
                    else Inr (\<lambda>x. hd ys + x)),
      call_raises = (\<lambda>interpolation xs. None)\<rparr>"

definition sample_example :: "Joint \<Rightarrow> nat \<Rightarrow> string \<Rightarrow> node list" where
  "sample_example joint n rule =
     map (\<lambda>i. if len_Joint joint = 1 then Scalar (PyFloat (real i))
               else Sequence (replicate (len_Joint joint) (PyFloat (real i)))) [0..<n]"

definition chaospy_example :: "(nat, real list list) chaospy" where
  "chaospy_example =
     \<lparr>J_raises = (\<lambda>args. None),
      orth_ttr = (\<lambda>m joint. [0..<Suc m]),
      orth_ttr_raises = (\<lambda>m joint. None),
      sample = sample_example,
      sample_raises = (\<lambda>joint n rule. None),
      array_raises = (\<lambda>solves. None),
      fit_regression = (\<lambda>basis nodes ys rule. ys),
      fit_regression_raises = (\<lambda>basis nodes ys rule. None),
      cp_E = (\<lambda>u joint. Inr (map hd u)),
      cp_Var = (\<lambda>u joint. Inr (map (\<lambda>r. 0) u)),
      Sens_t = (\<lambda>u joint. Inr u),
      cp_Corr = (\<lambda>basis joint. Inr []),
      call_U_hat = (\<lambda>u nodes. Inr u),
      percentile = (\<lambda>mc q axis. Inr (map hd mc))\<rparr>"

fun first_value :: "(pyvalue, scalar) dict \<Rightarrow> real" where
  "first_value ((k, PyFloat x) # d) = x"
| "first_value ((k, PyInt i) # d) = real_of_int i"
| "first_value [] = 0"

definition model_example :: model where
  "model_example =
     \<lparr>modelfile = ''INmodel.hoc'',
      modelpath = ''neuron_models/dLGN_modelDB/'',
      Simulation =
        (\<lambda>mfile mpath tmp_parameters.
           if first_value tmp_parameters < 1 then Inr ([7, 7, 7, 7], [0, 1, 2, 3])
           else Inr ([8, 8, 8, 8, 8], [0, 1, 2, 3, 4])),
      model_runParallel = (\<lambda>tmp_parameters. Inr (Some [7, 7, 7, 7], Some [0, 1, 2, 3]))\<rparr>"

text \<open>A simulator that fails on every node but the node \<open>1\<close>.\<close>

definition model_failing :: model where
  "model_failing =
     model_example\<lparr>Simulation :=
       (\<lambda>mfile mpath tmp_parameters.
          if first_value tmp_parameters = 1 then Inr ([7, 7, 7, 7], [0, 1, 2, 3])
          else Inl (ModelError ''boom''))\<rparr>"

text \<open>The coffee-cup parameters of the repository's example, with a third one without distribution.\<close>

definition parameterlist_example :: "entry list" where
  "parameterlist_example =
     [Triple ''kappa'' (- 5 / 100) (DistArg (Dist ''Uniform(-0.075, -0.025)'' 1)),
      Triple ''u_env'' 3 NoneArg,
      Triple ''T_env'' 20 (Callable (\<lambda>x. PyDist (Dist ''Uniform(15, 25)'' 1)))]"

definition kappa :: Parameter where
  "kappa = \<lparr>name = ''kappa'', value = - 5 / 100,
            parameter_space = PyDist (Dist ''Uniform(-0.075, -0.025)'' 1)\<rparr>"

definition u_env :: Parameter where
  "u_env = \<lparr>name = ''u_env'', value = 3, parameter_space = PyNone\<rparr>"

definition T_env :: Parameter where
  "T_env = \<lparr>name = ''T_env'', value = 20, parameter_space = PyDist (Dist ''Uniform(15, 25)'' 1)\<rparr>"

text \<open>Two raw results on grids of four and of five points.\<close>

definition solve_short :: solve where
  "solve_short = ([0, 1, 2, 3], [7, 7, 7, 7], \<lambda>x. 7 + x)"

definition solve_long :: solve where
  "solve_long = ([0, 1, 2, 3, 4], [8, 8, 8, 8, 8], \<lambda>x. 8 + x)"

text \<open>
  A worker process whose simulation succeeds and a feature class that reports a spike
  count, a pair of arrays, and a feature that happens to be called
  \<^verbatim>\<open>directComparison\<close>.
\<close>

definition process_example :: "unit process" where
  "process_example =
     \<lparr>current_process_name = ''PoolWorker-3'',
      filedir = ''/tmp'',
      str = (\<lambda>x. case x of PyFloat r \<Rightarrow> ''float'' | PyInt i \<Rightarrow> ''int''),
      Popen = (\<lambda>command. \<lparr>returncode = 0, ut = ''done'', err = [],
                             tmp_U = Some [7, 7, 7, 7], tmp_t = Some [0, 1, 2, 3]\<rparr>),
      calculateFeatures =
        (\<lambda>fc kw ts U fl.
           Inr [(''nrSpikes'', FNum 2),
                (''directComparison'', FNone),
                (''spikes'', FSeq [FSeq [FNum 1], FSeq [FNum 7]])])\<rparr>"

text \<open>A worker process whose simulation exits with status 1, whatever the command.\<close>

definition process_failing :: "unit process" where
  "process_failing =
     process_example\<lparr>Popen :=
       (\<lambda>command. \<lparr>returncode = 1, ut = ''out'', err = ''boom'',
                     tmp_U = None, tmp_t = None\<rparr>)\<rparr>"

definition data_example :: "unit data" where
  "data_example =
     \<lparr>cmd = [''python'', ''run.py''], supress_model_output = True,
      node = Scalar (PyFloat 1), tmp_parameter_names = [''kappa''],
      feature_list = [''nrSpikes''], feature_cmd = (''path'', ''features.py'', ''Features''),
      kwargs = ()\<rparr>"

text \<open>
  Two uncertain parameters, one of them with a distribution of two axes (the joint
  distribution of two independent uniform ones), and a run of degree 0 on them.
\<close>

definition parameterlist_mismatch :: "entry list" where
  "parameterlist_mismatch =
     [Triple ''a'' 1 (DistArg (Dist ''J(Uniform(0, 1), Uniform(0, 1))'' 2)),
      Triple ''b'' 2 (DistArg (Dist ''Uniform(0, 1)'' 1))]"

definition params_mismatch :: Parameters where
  "params_mismatch =
     \<lparr>parameters =
        [(''a'', \<lparr>name = ''a'', value = 1, parameter_space = PyDist (Dist ''J(Uniform(0, 1), Uniform(0, 1))'' 2)\<rparr>),
         (''b'', \<lparr>name = ''b'', value = 2, parameter_space = PyDist (Dist ''Uniform(0, 1)'' 1)\<rparr>)]\<rparr>"

definition self_mismatch :: "(nat, real list list) UncertaintyEstimation" where
  "self_mismatch = (UncertaintyEstimation_init params_mismatch [''a'', ''b''])\<lparr>self_M := 0\<rparr>"

text \<open>
  A run of degree 0 on the coffee-cup parameters, and two samplers for it: under either
  the failing simulator fails on the second node, which is \<open>2\<close> under the first and
  \<open>3\<close> under the second.
\<close>

definition params_example :: Parameters where
  "params_example = \<lparr>parameters = [(''kappa'', kappa), (''u_env'', u_env), (''T_env'', T_env)]\<rparr>"

definition self_example :: "(nat, real list list) UncertaintyEstimation" where
  "self_example = (UncertaintyEstimation_init params_example [''kappa'', ''T_env''])\<lparr>self_M := 0\<rparr>"

definition chaospy_A :: "(nat, real list list) chaospy" where
  "chaospy_A = chaospy_example\<lparr>sample := (\<lambda>joint n rule. [Scalar (PyFloat 1), Scalar (PyFloat 2)])\<rparr>"

definition chaospy_B :: "(nat, real list list) chaospy" where
  "chaospy_B = chaospy_example\<lparr>sample := (\<lambda>joint n rule. [Scalar (PyFloat 1), Scalar (PyFloat 3)])\<rparr>"

text \<open>A simulator that fails whenever it is given a value for \<^verbatim>\<open>T_env\<close> alone.\<close>

definition model_failing_T_env :: model where
  "model_failing_T_env =
     model_example\<lparr>Simulation :=
       (\<lambda>mfile mpath tmp_parameters.
          if map fst tmp_parameters = [PyStr ''T_env''] then Inl (ModelError ''boom'')
          else Inr ([7, 7, 7, 7], [0, 1, 2, 3]))\<rparr>"

text \<open>
  The run of the example as \<^verbatim>\<open>singleParameters\<close> leaves it once the first parameter,
  \<^verbatim>\<open>kappa\<close>, is completed under the example collaborators.
\<close>

definition self_after_kappa :: "(nat, real list list) UncertaintyEstimation" where
  "self_after_kappa =
     self_example\<lparr>tmp_parameter_name := [PyStr ''kappa''],
       distribution := Some (J [PyDist (Dist ''Uniform(-0.075, -0.025)'' 1)]),
       self_P := Some [0],
       self_t := Some [0, 1, 2, 3],
       U_hat := Some [[7, 8, 9, 10], [7, 8, 9, 10]],
       self_E := Some [7, 7],
       Var := Some [0, 0],
       U_mc := Some [[7, 8, 9, 10], [7, 8, 9, 10]],
       p_05 := Some [7, 7],
       p_95 := Some [7, 7]\<rparr>"

text \<open>The coffee-cup parameters registered in the other order.\<close>

definition parameterlist_reversed :: "entry list" where
  "parameterlist_reversed =
     [Triple ''T_env'' 20 (DistArg (Dist ''Uniform(15, 25)'' 1)),
      Triple ''kappa'' (- 5 / 100) (DistArg (Dist ''Uniform(-0.075, -0.025)'' 1))]"

definition params_reversed :: Parameters where
  "params_reversed = \<lparr>parameters = [(''T_env'', T_env), (''kappa'', kappa)]\<rparr>"

definition self_reversed :: "(nat, real list list) UncertaintyEstimation" where
  "self_reversed = (UncertaintyEstimation_init params_reversed [''T_env'', ''kappa''])\<lparr>self_M := 0\<rparr>"

text \<open>
  An expansion of degree 0 in one parameter, fitted on two nodes and three time steps,
  with the monomials as basis values.
\<close>

definition pce_example :: PCEModel where
  "pce_example = \<lparr>basis_indices = [[0]], basis_norms = [1], coefficients = [[8], [9], [10]]\<rparr>"

definition outputs_example :: "real list list" where
  "outputs_example = [[7, 8, 9], [9, 10, 11]]"

definition Phi_example :: "nat list \<Rightarrow> real \<Rightarrow> real" where
  "Phi_example k x = x ^ sum_list k"

section \<open>Properties\<close>

subsection \<open>Dictionaries and \<^verbatim>\<open>np.argmax\<close>\<close>

lemma map_of_dict_setitem: "map_of (dict_setitem d k v) = (map_of d)(k \<mapsto> v)"
  by (induction d) (auto simp: fun_eq_iff)

lemma dict_getitem_setitem: "dict_getitem (dict_setitem d k v) k = Inr v"
  by (simp add: dict_getitem_def map_of_dict_setitem)

lemma dict_setitem_fresh: "k \<notin> fst ` set d \<Longrightarrow> dict_setitem d k v = d @ [(k, v)]"
  by (induction d) auto

text \<open>
  Iteration permutes the entries of a dictionary: each entry is met exactly once.
\<close>

lemma mset_dict_items: "mset (dict_items d) = mset d"
  by (simp add: dict_items_def)

lemma set_dict_items: "set (dict_items d) = set d"
  by (simp add: dict_items_def)

lemma length_dict_items: "length (dict_items d) = length d"
  by (simp add: dict_items_def)

lemma dict_items_single: "dict_items [(k, v)] = [(k, v)]"
  by (simp add: dict_items_def)

lemma mset_dict_values: "mset (dict_values d) = mset (map snd d)"
  unfolding dict_values_def by (metis mset_dict_items mset_map)

lemma mset_uncertain_dict_values:
  "mset (uncertain (dict_values d)) = mset (uncertain (map snd d))"
  unfolding uncertain_def by (simp add: mset_filter mset_dict_values del: mset_map)

lemma set_dict_keys: "set (dict_keys d) = fst ` set d"
  by (simp add: dict_keys_def set_dict_items)

lemma sum_list_axes_mset:
  "mset xs = mset ys \<Longrightarrow> sum_list (map f xs) = sum_list (map (f :: 'a \<Rightarrow> nat) ys)"
  by (metis mset_map sum_mset_sum_list)

text \<open>
  The tables of the dictionaries of the examples, and the order in which they are
  iterated: \<^verbatim>\<open>kappa\<close> hashes to slot 4, \<^verbatim>\<open>T_env\<close> to slot 5 and \<^verbatim>\<open>u_env\<close> to slot 0 of the
  eight slots.
\<close>

lemma table_of_reversed:
  "table_of [''T_env'', ''kappa'']
     = [None, None, None, None, Some ''kappa'', Some ''T_env'', None, None]"
  by code_simp

lemma table_of_example:
  "table_of [''kappa'', ''u_env'', ''T_env'']
     = [Some ''u_env'', None, None, None, Some ''kappa'', Some ''T_env'', None, None]"
  by code_simp

lemma table_of_mismatch:
  "table_of [''a'', ''b''] = [Some ''a'', None, None, Some ''b'', None, None, None, None]"
  by code_simp

lemma table_of_features:
  "table_of [''nrSpikes'', ''directComparison'', ''spikes'']
     = [Some ''directComparison'', None, None, Some ''spikes'', None, Some ''nrSpikes'', None, None]"
  by code_simp

lemma dict_items_reversed:
  "dict_items [(''T_env'', x), (''kappa'', y)] = [(''kappa'', y), (''T_env'', x)]"
  by (simp add: dict_items_def table_of_reversed)

lemma dict_items_example:
  "dict_items [(''kappa'', x), (''u_env'', y), (''T_env'', z)]
     = [(''u_env'', y), (''kappa'', x), (''T_env'', z)]"
  by (simp add: dict_items_def table_of_example)

lemma dict_items_mismatch:
  "dict_items [(''a'', x), (''b'', y)] = [(''a'', x), (''b'', y)]"
  by (simp add: dict_items_def table_of_mismatch)

lemma dict_items_features:
  "dict_items [(''nrSpikes'', x), (''directComparison'', y), (''spikes'', z)]
     = [(''directComparison'', y), (''spikes'', z), (''nrSpikes'', x)]"
  by (simp add: dict_items_def table_of_features)

lemma argmax_less: "xs \<noteq> [] \<Longrightarrow> argmax xs < length xs"
  by (induction xs rule: argmax.induct) (auto simp: Let_def)

lemma argmax_max: "j < length xs \<Longrightarrow> xs ! j \<le> xs ! argmax xs"
proof (induction xs arbitrary: j rule: argmax.induct)
  case (3 x y ys)
  show ?case
  proof (cases j)
    case 0
    then show ?thesis by (auto simp: Let_def)
  next
    case (Suc k)
    with 3 have "(y # ys) ! k \<le> (y # ys) ! argmax (y # ys)" by simp
    with Suc show ?thesis by (auto simp: Let_def)
  qed
qed auto

lemma argmax_first: "j < argmax xs \<Longrightarrow> xs ! j < xs ! argmax xs"
proof (induction xs arbitrary: j rule: argmax.induct)
  case (3 x y ys)
  show ?case
  proof (cases j)
    case 0
    with 3 show ?thesis by (auto simp: Let_def split: if_splits)
  next
    case (Suc k)
    with 3 show ?thesis by (auto simp: Let_def split: if_splits)
  qed
qed auto

subsection \<open>Registration\<close>

lemma Parameter_init_name: "Parameter_init n v da = Inr p \<Longrightarrow> name p = n"
  by (auto simp: Parameter_init_def setDistribution_def Let_def
           split: distribution.splits if_splits)

lemma registered_names: "registered pl = Inr ps \<Longrightarrow> map name ps = map entry_name pl"
proof (induction pl arbitrary: ps rule: registered.induct)
  case 1
  then show ?case by simp
next
  case (2 p parameterlist)
  then show ?case by (auto split: sum.splits)
next
  case (3 n v da parameterlist)
  then show ?case by (auto split: sum.splits dest: Parameter_init_name)
qed

text \<open>
  With distinct names every assignment \<^verbatim>\<open>self.parameters[name] = parameter\<close> of the
  constructor's loop adds a new key, so the dictionary holds the parameters as registered.
\<close>

lemma Parameters_loop_registered:
  "registered pl = Inr ps \<Longrightarrow> distinct (map entry_name pl)
   \<Longrightarrow> set (map entry_name pl) \<inter> fst ` set d = {}
   \<Longrightarrow> Parameters_loop d pl = Inr (d @ map (\<lambda>p. (name p, p)) ps)"
proof (induction pl arbitrary: ps d rule: registered.induct)
  case 1
  then show ?case by simp
next
  case (2 p parameterlist)
  from "2.prems"(1) obtain ps' where ps': "registered parameterlist = Inr ps'" "ps = p # ps'"
    by (auto split: sum.splits)
  have fresh: "name p \<notin> fst ` set d" using "2.prems"(3) by auto
  have "set (map entry_name parameterlist) \<inter> fst ` set (d @ [(name p, p)]) = {}"
    using "2.prems"(2,3) by auto
  with "2.IH" [OF ps'(1)] "2.prems"(2)
  have "Parameters_loop (d @ [(name p, p)]) parameterlist
          = Inr ((d @ [(name p, p)]) @ map (\<lambda>p. (name p, p)) ps')" by simp
  with fresh ps'(2) show ?case by (simp add: dict_setitem_fresh)
next
  case (3 n v da parameterlist)
  from "3.prems"(1) obtain p ps' where p: "Parameter_init n v da = Inr p"
    and ps': "registered parameterlist = Inr ps'" "ps = p # ps'"
    by (auto split: sum.splits)
  have np: "name p = n" using p by (rule Parameter_init_name)
  have fresh: "n \<notin> fst ` set d" using "3.prems"(3) by auto
  have "set (map entry_name parameterlist) \<inter> fst ` set (d @ [(n, p)]) = {}"
    using "3.prems"(2,3) by auto
  with "3.IH" [OF p ps'(1)] "3.prems"(2)
  have "Parameters_loop (d @ [(n, p)]) parameterlist
          = Inr ((d @ [(n, p)]) @ map (\<lambda>p. (name p, p)) ps')" by simp
  with fresh ps'(2) p np show ?case by (simp add: dict_setitem_fresh)
qed

lemma getUncertain_loop_name:
  "getUncertain_loop ps ''name'' = Inr (map (\<lambda>p. PyStr (name p)) (uncertain ps))"
  by (induction ps) (auto simp: uncertain_def getattr_def)

lemma getUncertain_loop_parameter_space:
  "getUncertain_loop ps ''parameter_space'' = Inr (map parameter_space (uncertain ps))"
  by (induction ps) (auto simp: uncertain_def getattr_def)

text \<open>Without a parameter name the first lines of \<^verbatim>\<open>createPCExpansion\<close> cannot fail.\<close>

lemma spaces_and_names_None:
  "spaces_and_names params None =
     Inr (map parameter_space (uncertain (dict_values (parameters params))),
          map (\<lambda>p. PyStr (name p)) (uncertain (dict_values (parameters params))))"
  by (simp add: spaces_and_names_def getUncertain_def getUncertain_loop_name
        getUncertain_loop_parameter_space)

text \<open>
  The values of a dictionary of parameters stored under their names come in the order of
  the slots of their names.
\<close>

lemma dict_values_sorted:
  fixes ps :: "Parameter list"
  shows "sorted (map (\<lambda>p. slot_index (table_of (map name ps)) (name p))
                     (dict_values (map (\<lambda>p. (name p, p)) ps)))"
proof -
  define T where "T = table_of (map name ps)"
  define g where "g = (\<lambda>(key, v :: Parameter). slot_index T key)"
  let ?d = "map (\<lambda>p. (name p, p)) ps"
  have keys: "map fst ?d = map name ps" by (simp add: comp_def)
  have items: "dict_items ?d = sort_key g ?d"
    unfolding dict_items_def keys g_def T_def ..
  have eq: "map (\<lambda>x. slot_index T (name (snd x))) (sort_key g ?d) = map g (sort_key g ?d)"
    by (rule map_cong [OF refl]) (auto simp: g_def)
  have "sorted (map (\<lambda>x. slot_index T (name (snd x))) (dict_items ?d))"
    unfolding items eq by (rule sorted_sort_key)
  then show ?thesis by (simp add: dict_values_def T_def comp_def)
qed

lemma uncertain_sorted:
  "sorted (map f ps) \<Longrightarrow> sorted (map f (uncertain ps))"
  unfolding uncertain_def by (rule sorted_filter)

lemma len_Joint_univariate:
  "\<forall>p \<in> set ps. axes (parameter_space p) = 1
   \<Longrightarrow> sum_list (map (\<lambda>p. axes (parameter_space p)) ps) = length ps"
  by (induction ps) auto

subsection \<open>The evaluation loop\<close>

lemma solves_loop_length: "solves_loop sp mdl ds = Inr solves \<Longrightarrow> length solves = length ds"
  by (induction ds arbitrary: solves) (auto split: sum.splits)

lemma solves_loop_first_failure:
  "i < length ds \<Longrightarrow> runParallelFunction sp mdl (ds ! i) = Inl e
   \<Longrightarrow> \<forall>j < i. \<exists>s. runParallelFunction sp mdl (ds ! j) = Inr s
   \<Longrightarrow> solves_loop sp mdl ds = Inl e"
proof (induction ds arbitrary: i)
  case Nil
  then show ?case by simp
next
  case (Cons d ds)
  show ?case
  proof (cases i)
    case 0
    with Cons.prems show ?thesis by simp
  next
    case (Suc k)
    from Cons.prems(3) Suc have "\<exists>s. runParallelFunction sp mdl ((d # ds) ! 0) = Inr s" by blast
    then obtain s where s: "runParallelFunction sp mdl d = Inr s" by (auto simp del: split_paired_Ex)
    have "\<forall>j < k. \<exists>s. runParallelFunction sp mdl (ds ! j) = Inr s"
    proof (intro allI impI)
      fix j assume "j < k"
      then have "Suc j < i" using Suc by simp
      with Cons.prems(3) have "\<exists>s. runParallelFunction sp mdl ((d # ds) ! Suc j) = Inr s" by blast
      then show "\<exists>s. runParallelFunction sp mdl (ds ! j) = Inr s" by (simp del: split_paired_Ex)
    qed
    with Cons.IH [of k] Cons.prems(1,2) Suc have "solves_loop sp mdl ds = Inl e" by simp
    with s show ?thesis by simp
  qed
qed

lemma calls_started_first_failure:
  "i < length ds \<Longrightarrow> runParallelFunction sp mdl (ds ! i) = Inl e
   \<Longrightarrow> \<forall>j < i. \<exists>s. runParallelFunction sp mdl (ds ! j) = Inr s
   \<Longrightarrow> calls_started sp mdl ds = Suc i"
proof (induction ds arbitrary: i)
  case Nil
  then show ?case by simp
next
  case (Cons d ds)
  show ?case
  proof (cases i)
    case 0
    with Cons.prems show ?thesis by simp
  next
    case (Suc k)
    from Cons.prems(3) Suc have "\<exists>s. runParallelFunction sp mdl ((d # ds) ! 0) = Inr s" by blast
    then obtain s where s: "runParallelFunction sp mdl d = Inr s" by (auto simp del: split_paired_Ex)
    have "\<forall>j < k. \<exists>s. runParallelFunction sp mdl (ds ! j) = Inr s"
    proof (intro allI impI)
      fix j assume "j < k"
      then have "Suc j < i" using Suc by simp
      with Cons.prems(3) have "\<exists>s. runParallelFunction sp mdl ((d # ds) ! Suc j) = Inr s" by blast
      then show "\<exists>s. runParallelFunction sp mdl (ds ! j) = Inr s" by (simp del: split_paired_Ex)
    qed
    with Cons.IH [of k] Cons.prems(1,2) Suc have "calls_started sp mdl ds = Suc k" by simp
    with s Suc show ?thesis by simp
  qed
qed

lemma calls_started_positive: "ds \<noteq> [] \<Longrightarrow> 0 < calls_started sp mdl ds"
  by (cases ds) (auto split: sum.splits)

text \<open>
  The first stage of \<^verbatim>\<open>createPCExpansion\<close> assigns the parameter names, the joint
  distribution and the basis, and nothing else.
\<close>

lemma generate_nodes_fields:
  "generate_nodes cp self pn = (self1, r)
   \<Longrightarrow> statistics self1 = statistics self \<and> U_hat self1 = U_hat self
       \<and> features self1 = features self \<and> self_M self1 = self_M self
       \<and> self_parameters self1 = self_parameters self
       \<and> uncertain_parameters self1 = uncertain_parameters self
       \<and> mc_samples self1 = mc_samples self"
  by (auto simp: generate_nodes_def Let_def statistics_def
           split: sum.splits option.splits prod.splits)

lemma generate_nodes_Inr:
  "generate_nodes cp self pn = (self1, Inr (basis, nodes))
   \<Longrightarrow> \<exists>spaces names.
         spaces_and_names (self_parameters self) pn = Inr (spaces, names)
       \<and> J_raises cp spaces = None
       \<and> orth_ttr_raises cp (self_M self) (J spaces) = None
       \<and> sample_raises cp (J spaces) (2 * length basis) ''M'' = None
       \<and> basis = orth_ttr cp (self_M self) (J spaces)
       \<and> nodes = regression_nodes cp basis (J spaces)
       \<and> self1 = self\<lparr>tmp_parameter_name := names, distribution := Some (J spaces),
                        self_P := Some basis\<rparr>"
  by (auto simp: generate_nodes_def Let_def split: sum.splits option.splits prod.splits)

lemma generate_nodes_returns:
  assumes "spaces_and_names (self_parameters self) pn = Inr (spaces, names)"
      and "J_raises cp spaces = None"
      and "orth_ttr_raises cp (self_M self) (J spaces) = None"
      and "basis = orth_ttr cp (self_M self) (J spaces)"
      and "sample_raises cp (J spaces) (2 * length basis) ''M'' = None"
  shows "generate_nodes cp self pn =
           (self\<lparr>tmp_parameter_name := names, distribution := Some (J spaces),
                  self_P := Some basis\<rparr>,
            Inr (basis, regression_nodes cp basis (J spaces)))"
  using assms by (simp add: generate_nodes_def Let_def)

text \<open>
  Once the nodes are drawn \<^verbatim>\<open>createPCExpansion\<close> ends in one of three ways: no node, a
  node whose evaluation raises, or the fit.
\<close>

lemma createPCExpansion_nodes:
  assumes "generate_nodes cp self pn = (self1, Inr (basis, nodes))"
  shows "createPCExpansion sp cp mdl self pn =
           (if nodes = [] then (self1, Raise IndexError)
            else case solves_loop sp mdl
                        (map (\<lambda>nd. (nd, tmp_parameter_name self1, modelfile mdl, modelpath mdl,
                                     features self1)) nodes) of
                   Inl e \<Rightarrow> (self1, Raise e)
                 | Inr solves \<Rightarrow> fit_expansion sp cp self1 basis nodes solves)"
  using assms by (simp add: createPCExpansion_def Let_def)

lemma fit_expansion_Return_None:
  "fit_expansion sp cp self basis nodes solves = (self', Return_None)
   \<Longrightarrow> self' = self\<lparr>self_t := Some (fst (align solves)),
                     U_hat := Some (fit_regression cp basis nodes (snd (align solves)) ''T'')\<rparr>"
  by (auto simp: fit_expansion_def Let_def split: option.splits prod.splits)

lemma fit_expansion_returns:
  assumes "array_raises cp solves = None"
      and "interpolants_raise sp solves (fst (align solves)) = None"
      and "fit_regression_raises cp basis nodes (snd (align solves)) ''T'' = None"
  shows "fit_expansion sp cp self basis nodes solves =
           (self\<lparr>self_t := Some (fst (align solves)),
                  U_hat := Some (fit_regression cp basis nodes (snd (align solves)) ''T'')\<rparr>,
            Return_None)"
  using assms by (cases "align solves") (simp add: fit_expansion_def Let_def)

lemma createPCExpansion_Return_None:
  assumes "createPCExpansion sp cp mdl self pn = (self', Return_None)"
  shows "\<exists>spaces names solves.
           spaces_and_names (self_parameters self) pn = Inr (spaces, names)
         \<and> solves_loop sp mdl
             (map (\<lambda>nd. (nd, names, modelfile mdl, modelpath mdl, features self))
                  (regression_nodes cp (orth_ttr cp (self_M self) (J spaces)) (J spaces)))
             = Inr solves
         \<and> self' = self\<lparr>tmp_parameter_name := names, distribution := Some (J spaces),
                          self_P := Some (orth_ttr cp (self_M self) (J spaces)),
                          self_t := Some (fst (align solves)),
                          U_hat := Some (fit_regression cp (orth_ttr cp (self_M self) (J spaces))
                                          (regression_nodes cp (orth_ttr cp (self_M self) (J spaces)) (J spaces))
                                          (snd (align solves)) ''T'')\<rparr>"
proof (cases "generate_nodes cp self pn")
  case (Pair self1 r)
  show ?thesis
  proof (cases r)
    case (Inl e)
    with Pair assms show ?thesis by (simp add: createPCExpansion_def)
  next
    case (Inr bn)
    obtain basis nodes where bn: "bn = (basis, nodes)" by (cases bn)
    from Pair Inr bn have gen: "generate_nodes cp self pn = (self1, Inr (basis, nodes))" by simp
    from generate_nodes_Inr [OF gen] obtain spaces names where
      sn: "spaces_and_names (self_parameters self) pn = Inr (spaces, names)"
      and basis: "basis = orth_ttr cp (self_M self) (J spaces)"
      and nodes: "nodes = regression_nodes cp basis (J spaces)"
      and self1: "self1 = self\<lparr>tmp_parameter_name := names, distribution := Some (J spaces),
                        self_P := Some basis\<rparr>" by blast
    let ?data = "map (\<lambda>nd. (nd, names, modelfile mdl, modelpath mdl, features self)) nodes"
    have data: "map (\<lambda>nd. (nd, tmp_parameter_name self1, modelfile mdl, modelpath mdl,
                                     features self1)) nodes = ?data"
      by (simp add: self1)
    from assms createPCExpansion_nodes [OF gen, of sp mdl] data
    obtain solves where solves: "solves_loop sp mdl ?data = Inr solves"
      and fit: "fit_expansion sp cp self1 basis nodes solves = (self', Return_None)"
      by (auto split: if_splits sum.splits)
    from fit_expansion_Return_None [OF fit] self1
    have "self' = self\<lparr>tmp_parameter_name := names, distribution := Some (J spaces),
                          self_P := Some basis,
                          self_t := Some (fst (align solves)),
                          U_hat := Some (fit_regression cp basis nodes (snd (align solves)) ''T'')\<rparr>"
      by simp
    with sn solves basis nodes show ?thesis by blast
  qed
qed

text \<open>
  The run ends with the exception of the first node whose evaluation raises, having
  printed the tuple of the first node and the three lines of every call it started.
\<close>

lemma createPCExpansion_first_failure:
  assumes gen: "generate_nodes cp self pn = (self1, Inr (basis, nodes))"
      and i: "i < length nodes"
      and fail: "runParallelFunction sp mdl
                   (nodes ! i, tmp_parameter_name self1, modelfile mdl, modelpath mdl,
                    features self1) = Inl e"
      and before: "\<forall>j < i. \<exists>s. runParallelFunction sp mdl
                   (nodes ! j, tmp_parameter_name self1, modelfile mdl, modelpath mdl,
                    features self1) = Inr s"
  shows "createPCExpansion sp cp mdl self pn = (self1, Raise e)"
    and "createPCExpansion_prints sp cp mdl self pn =
           Tuple (nodes ! 0, tmp_parameter_name self1, modelfile mdl, modelpath mdl, features self1)
             # concat (replicate (Suc i) [Line ''haha'', Line (modelfile mdl), Line (modelpath mdl)])"
proof -
  let ?data = "map (\<lambda>nd. (nd, tmp_parameter_name self1, modelfile mdl, modelpath mdl,
                           features self1)) nodes"
  have i': "i < length ?data" using i by simp
  have fail': "runParallelFunction sp mdl (?data ! i) = Inl e" using fail i by simp
  have before': "\<forall>j < i. \<exists>s. runParallelFunction sp mdl (?data ! j) = Inr s"
  proof (intro allI impI)
    fix j assume j: "j < i"
    with before have "\<exists>s. runParallelFunction sp mdl
                   (nodes ! j, tmp_parameter_name self1, modelfile mdl, modelpath mdl,
                    features self1) = Inr s" by blast
    with j i show "\<exists>s. runParallelFunction sp mdl (?data ! j) = Inr s"
      by (simp del: split_paired_Ex)
  qed
  have loop: "solves_loop sp mdl ?data = Inl e"
    by (rule solves_loop_first_failure [OF i' fail' before'])
  have started: "calls_started sp mdl ?data = Suc i"
    by (rule calls_started_first_failure [OF i' fail' before'])
  have ne: "nodes \<noteq> []" using i by auto
  from createPCExpansion_nodes [OF gen, of sp mdl] loop ne
  show "createPCExpansion sp cp mdl self pn = (self1, Raise e)" by simp
  have hd: "hd ?data = (nodes ! 0, tmp_parameter_name self1, modelfile mdl, modelpath mdl, features self1)"
    using ne by (cases nodes) auto
  have blocks: "concat (map runParallelFunction_prints (take (Suc i) ?data))
          = concat (replicate (Suc i) [Line ''haha'', Line (modelfile mdl), Line (modelpath mdl)])"
  proof -
    have "map runParallelFunction_prints (take (Suc i) ?data)
            = map (\<lambda>nd. [Line ''haha'', Line (modelfile mdl), Line (modelpath mdl)])
                  (take (Suc i) nodes)"
      by (simp add: take_map comp_def runParallelFunction_prints_def)
    also have "\<dots> = replicate (length (take (Suc i) nodes))
                        [Line ''haha'', Line (modelfile mdl), Line (modelpath mdl)]"
      by (rule map_replicate_const)
    also have "length (take (Suc i) nodes) = Suc i" using i by simp
    finally show ?thesis by simp
  qed
  show "createPCExpansion_prints sp cp mdl self pn =
           Tuple (nodes ! 0, tmp_parameter_name self1, modelfile mdl, modelpath mdl, features self1)
             # concat (replicate (Suc i) [Line ''haha'', Line (modelfile mdl), Line (modelpath mdl)])"
    unfolding createPCExpansion_prints_def gen using ne started hd blocks
    by (simp add: Let_def)
qed

text \<open>The loop of \<^verbatim>\<open>singleParameters\<close> goes on only after a parameter that completed.\<close>

lemma singleParameters_loop_append:
  "singleParameters_loop sp cp mdl self (xs @ ys) =
     (case singleParameters_loop sp cp mdl self xs of
        (self', Return_None) \<Rightarrow> singleParameters_loop sp cp mdl self' ys
      | other \<Rightarrow> other)"
proof (induction xs arbitrary: self)
  case Nil
  then show ?case by simp
next
  case (Cons x xs)
  show ?case
    by (simp add: Cons.IH split: prod.splits outcome.splits)
qed

lemma createPCExpansion_keeps:
  "tmp_parameter_name (fst (createPCExpansion sp cp mdl self pn))
     = tmp_parameter_name (fst (generate_nodes cp self pn))"
  "distribution (fst (createPCExpansion sp cp mdl self pn))
     = distribution (fst (generate_nodes cp self pn))"
  "self_P (fst (createPCExpansion sp cp mdl self pn))
     = self_P (fst (generate_nodes cp self pn))"
  by (auto simp: createPCExpansion_def fit_expansion_def Let_def
           split: prod.splits sum.splits option.splits)

lemma generate_nodes_names:
  "spaces_and_names (self_parameters self) pn = Inr (spaces, names)
   \<Longrightarrow> tmp_parameter_name (fst (generate_nodes cp self pn)) = names"
  by (simp add: generate_nodes_def Let_def split: option.splits)

lemma generate_nodes_distribution:
  "spaces_and_names (self_parameters self) pn = Inr (spaces, names)
   \<Longrightarrow> J_raises cp spaces = None
   \<Longrightarrow> distribution (fst (generate_nodes cp self pn)) = Some (J spaces)"
  by (simp add: generate_nodes_def Let_def split: option.splits)

lemma evaluateNodeFunction_nonzero_exit:
  assumes "set_tmp_parameters (tmp_parameter_names dat) (node dat) = Inr tmp_parameters"
      and "simulation = Popen env (simulation_cmd env dat tmp_parameters)"
      and "returncode simulation \<noteq> 0"
  shows "evaluateNodeFunction sp env dat =
           ((if supress_model_output dat then [] else [ut simulation])
              @ [ut simulation, ''Error when running simulation:'', err simulation],
            Inl (SystemExit 1))"
  using assms by (simp add: evaluateNodeFunction_def Let_def)

subsection \<open>The example runs\<close>

lemmas example_defs = parameterlist_example_def kappa_def u_env_def T_env_def

lemma sample_example_length: "length (sample chaospy_example joint n r) = n"
  by (simp add: chaospy_example_def sample_example_def)

lemma self_example_fields:
  "self_parameters self_example = params_example"
  "self_M self_example = 0"
  "features self_example = []"
  "uncertain_parameters self_example = [''kappa'', ''T_env'']"
  "statistics self_example = (None, None, None, None, None)"
  "U_hat self_example = None"
  by (simp_all add: self_example_def UncertaintyEstimation_init_def statistics_def)

lemma self_mismatch_fields:
  "self_parameters self_mismatch = params_mismatch"
  "self_M self_mismatch = 0"
  "features self_mismatch = []"
  by (simp_all add: self_mismatch_def UncertaintyEstimation_init_def)

lemma self_reversed_fields:
  "self_parameters self_reversed = params_reversed"
  "self_M self_reversed = 0"
  "features self_reversed = []"
  by (simp_all add: self_reversed_def UncertaintyEstimation_init_def)

lemma values_example: "dict_values (parameters params_example) = [u_env, kappa, T_env]"
  by (simp add: params_example_def dict_values_def dict_items_example)

lemma values_reversed: "dict_values (parameters params_reversed) = [kappa, T_env]"
  by (simp add: params_reversed_def dict_values_def dict_items_reversed)

lemma values_mismatch:
  "dict_values (parameters params_mismatch)
     = [\<lparr>name = ''a'', value = 1, parameter_space = PyDist (Dist ''J(Uniform(0, 1), Uniform(0, 1))'' 2)\<rparr>,
        \<lparr>name = ''b'', value = 2, parameter_space = PyDist (Dist ''Uniform(0, 1)'' 1)\<rparr>]"
  by (simp add: params_mismatch_def dict_values_def dict_items_mismatch)

lemma sn_example:
  "spaces_and_names params_example None
     = Inr ([PyDist (Dist ''Uniform(-0.075, -0.025)'' 1), PyDist (Dist ''Uniform(15, 25)'' 1)],
            [PyStr ''kappa'', PyStr ''T_env''])"
  by (simp add: spaces_and_names_None values_example uncertain_def example_defs)

lemma sn_reversed:
  "spaces_and_names params_reversed None
     = Inr ([PyDist (Dist ''Uniform(-0.075, -0.025)'' 1), PyDist (Dist ''Uniform(15, 25)'' 1)],
            [PyStr ''kappa'', PyStr ''T_env''])"
  by (simp add: spaces_and_names_None values_reversed uncertain_def example_defs)

lemma sn_kappa:
  "spaces_and_names params_example (Some ''kappa'')
     = Inr ([PyDist (Dist ''Uniform(-0.075, -0.025)'' 1)], [PyStr ''kappa''])"
  by (simp add: spaces_and_names_def get_def set_dict_keys params_example_def dict_getitem_def
        example_defs)

lemma sn_T_env:
  "spaces_and_names params_example (Some ''T_env'')
     = Inr ([PyDist (Dist ''Uniform(15, 25)'' 1)], [PyStr ''T_env''])"
  by (simp add: spaces_and_names_def get_def set_dict_keys params_example_def dict_getitem_def
        example_defs)

lemma sn_mismatch:
  "spaces_and_names params_mismatch None
     = Inr ([PyDist (Dist ''J(Uniform(0, 1), Uniform(0, 1))'' 2), PyDist (Dist ''Uniform(0, 1)'' 1)],
            [PyStr ''a'', PyStr ''b''])"
  by (simp add: spaces_and_names_None values_mismatch uncertain_def)

lemma chaospy_example_returns:
  "J_raises chaospy_example args = None"
  "orth_ttr_raises chaospy_example m joint = None"
  "sample_raises chaospy_example joint n rule = None"
  "array_raises chaospy_example solves = None"
  "fit_regression_raises chaospy_example basis nodes ys rule = None"
  "orth_ttr chaospy_example 0 joint = [0]"
  "fit_regression chaospy_example basis nodes ys rule = ys"
  by (simp_all add: chaospy_example_def)

lemma chaospy_A_returns:
  "J_raises chaospy_A args = None"
  "orth_ttr_raises chaospy_A m joint = None"
  "sample_raises chaospy_A joint n rule = None"
  "orth_ttr chaospy_A 0 joint = [0]"
  "regression_nodes chaospy_A basis joint = [Scalar (PyFloat 1), Scalar (PyFloat 2)]"
  by (simp_all add: chaospy_A_def chaospy_example_def regression_nodes_def)

lemma chaospy_B_returns:
  "J_raises chaospy_B args = None"
  "orth_ttr_raises chaospy_B m joint = None"
  "sample_raises chaospy_B joint n rule = None"
  "orth_ttr chaospy_B 0 joint = [0]"
  "regression_nodes chaospy_B basis joint = [Scalar (PyFloat 1), Scalar (PyFloat 3)]"
  by (simp_all add: chaospy_B_def chaospy_example_def regression_nodes_def)

lemma interpolants_raise_example: "interpolants_raise scipy_example solves ts = None"
  by (induction solves) (auto simp: scipy_example_def)

lemma nodes_one_axis:
  "len_Joint joint = 1 \<Longrightarrow> regression_nodes chaospy_example [b] joint
     = [Scalar (PyFloat 0), Scalar (PyFloat 1)]"
  by (simp add: regression_nodes_def chaospy_example_def sample_example_def
        numeral_2_eq_2 numeral_3_eq_3)

lemma nodes_example:
  "len_Joint joint = 2 \<Longrightarrow> regression_nodes chaospy_example [b] joint
     = [Sequence [PyFloat 0, PyFloat 0], Sequence [PyFloat 1, PyFloat 1]]"
  by (simp add: regression_nodes_def chaospy_example_def sample_example_def
        numeral_2_eq_2 numeral_3_eq_3)

lemma nodes_mismatch:
  "len_Joint joint = 3 \<Longrightarrow> regression_nodes chaospy_example [b] joint
     = [Sequence [PyFloat 0, PyFloat 0, PyFloat 0], Sequence [PyFloat 1, PyFloat 1, PyFloat 1]]"
  by (simp add: regression_nodes_def chaospy_example_def sample_example_def
        numeral_2_eq_2 numeral_3_eq_3)

lemma runParallelFunction_example:
  "runParallelFunction scipy_example model_example
     (Sequence [PyFloat 0, PyFloat 0], [n1, n2], mf, mp, []) = Inr solve_short"
  "runParallelFunction scipy_example model_example
     (Sequence [PyFloat 1, PyFloat 1], [n1, n2], mf, mp, []) = Inr solve_long"
  "runParallelFunction scipy_example model_example
     (Sequence [PyFloat 0, PyFloat 0, PyFloat 0], [n1, n2], mf, mp, []) = Inr solve_short"
  "runParallelFunction scipy_example model_example
     (Sequence [PyFloat 1, PyFloat 1, PyFloat 1], [n1, n2], mf, mp, []) = Inr solve_long"
  by (simp_all add: runParallelFunction_def set_tmp_parameters_def model_example_def
        scipy_example_def solve_short_def solve_long_def)

lemma runParallelFunction_failing:
  "runParallelFunction scipy_example model_failing (Scalar (PyFloat 1), [n1], mf, mp, [])
     = Inr solve_short"
  "runParallelFunction scipy_example model_failing (Scalar (PyFloat 2), [n1], mf, mp, [])
     = Inl (ModelError ''boom'')"
  "runParallelFunction scipy_example model_failing (Scalar (PyFloat 3), [n1], mf, mp, [])
     = Inl (ModelError ''boom'')"
  "runParallelFunction scipy_example model_failing
     (Sequence [PyFloat 0, PyFloat 0, PyFloat 0], [n1, n2], mf, mp, []) = Inl (ModelError ''boom'')"
  by (simp_all add: runParallelFunction_def set_tmp_parameters_def model_failing_def
        model_example_def scipy_example_def solve_short_def)

lemma runParallelFunction_failing_T_env:
  "runParallelFunction scipy_example model_failing_T_env
     (Scalar x, [PyStr ''kappa''], mf, mp, []) = Inr solve_short"
  "runParallelFunction scipy_example model_failing_T_env
     (Scalar x, [PyStr ''T_env''], mf, mp, []) = Inl (ModelError ''boom'')"
  by (simp_all add: runParallelFunction_def set_tmp_parameters_def model_failing_T_env_def
        model_example_def scipy_example_def solve_short_def)

lemma align_example:
  "align [solve_short, solve_long] = ([0, 1, 2, 3, 4], [[7, 8, 9, 10, 11], [8, 9, 10, 11, 12]])"
  "align [solve_short, solve_short] = ([0, 1, 2, 3], [[7, 8, 9, 10], [7, 8, 9, 10]])"
  by (simp_all add: align_def solve_short_def solve_long_def call_interpolant_def Let_def)

lemma generate_nodes_example:
  "generate_nodes chaospy_example self_example None =
     (self_example\<lparr>tmp_parameter_name := [PyStr ''kappa'', PyStr ''T_env''],
        distribution := Some (J [PyDist (Dist ''Uniform(-0.075, -0.025)'' 1),
                                 PyDist (Dist ''Uniform(15, 25)'' 1)]),
        self_P := Some [0]\<rparr>,
      Inr ([0], [Sequence [PyFloat 0, PyFloat 0], Sequence [PyFloat 1, PyFloat 1]]))"
proof -
  have sn: "spaces_and_names (self_parameters self_example) None
     = Inr ([PyDist (Dist ''Uniform(-0.075, -0.025)'' 1), PyDist (Dist ''Uniform(15, 25)'' 1)],
            [PyStr ''kappa'', PyStr ''T_env''])"
    by (simp add: self_example_fields sn_example)
  show ?thesis
    unfolding generate_nodes_returns [OF sn chaospy_example_returns(1) chaospy_example_returns(2)
        refl chaospy_example_returns(3)]
    by (simp add: self_example_fields chaospy_example_returns nodes_example)
qed

lemma generate_nodes_reversed:
  "generate_nodes chaospy_example self_reversed None =
     (self_reversed\<lparr>tmp_parameter_name := [PyStr ''kappa'', PyStr ''T_env''],
        distribution := Some (J [PyDist (Dist ''Uniform(-0.075, -0.025)'' 1),
                                 PyDist (Dist ''Uniform(15, 25)'' 1)]),
        self_P := Some [0]\<rparr>,
      Inr ([0], [Sequence [PyFloat 0, PyFloat 0], Sequence [PyFloat 1, PyFloat 1]]))"
proof -
  have sn: "spaces_and_names (self_parameters self_reversed) None
     = Inr ([PyDist (Dist ''Uniform(-0.075, -0.025)'' 1), PyDist (Dist ''Uniform(15, 25)'' 1)],
            [PyStr ''kappa'', PyStr ''T_env''])"
    by (simp add: self_reversed_fields sn_reversed)
  show ?thesis
    unfolding generate_nodes_returns [OF sn chaospy_example_returns(1) chaospy_example_returns(2)
        refl chaospy_example_returns(3)]
    by (simp add: self_reversed_fields chaospy_example_returns nodes_example)
qed

lemma generate_nodes_mismatch:
  "generate_nodes chaospy_example self_mismatch None =
     (self_mismatch\<lparr>tmp_parameter_name := [PyStr ''a'', PyStr ''b''],
        distribution := Some (J [PyDist (Dist ''J(Uniform(0, 1), Uniform(0, 1))'' 2),
                                 PyDist (Dist ''Uniform(0, 1)'' 1)]),
        self_P := Some [0]\<rparr>,
      Inr ([0], [Sequence [PyFloat 0, PyFloat 0, PyFloat 0],
                 Sequence [PyFloat 1, PyFloat 1, PyFloat 1]]))"
proof -
  have sn: "spaces_and_names (self_parameters self_mismatch) None
     = Inr ([PyDist (Dist ''J(Uniform(0, 1), Uniform(0, 1))'' 2), PyDist (Dist ''Uniform(0, 1)'' 1)],
            [PyStr ''a'', PyStr ''b''])"
    by (simp add: self_mismatch_fields sn_mismatch)
  show ?thesis
    unfolding generate_nodes_returns [OF sn chaospy_example_returns(1) chaospy_example_returns(2)
        refl chaospy_example_returns(3)]
    by (simp add: self_mismatch_fields chaospy_example_returns nodes_mismatch)
qed

lemma fit_expansion_example:
  "fit_expansion scipy_example chaospy_example self basis nodes [solve_short, solve_long]
     = (self\<lparr>self_t := Some [0, 1, 2, 3, 4],
              U_hat := Some [[7, 8, 9, 10, 11], [8, 9, 10, 11, 12]]\<rparr>, Return_None)"
  "fit_expansion scipy_example chaospy_example self basis nodes [solve_short, solve_short]
     = (self\<lparr>self_t := Some [0, 1, 2, 3],
              U_hat := Some [[7, 8, 9, 10], [7, 8, 9, 10]]\<rparr>, Return_None)"
  by (simp_all add: fit_expansion_returns chaospy_example_returns interpolants_raise_example
        align_example)

lemma createPCExpansion_example:
  "createPCExpansion scipy_example chaospy_example model_example self_example None =
     (self_example\<lparr>tmp_parameter_name := [PyStr ''kappa'', PyStr ''T_env''],
        distribution := Some (J [PyDist (Dist ''Uniform(-0.075, -0.025)'' 1),
                                 PyDist (Dist ''Uniform(15, 25)'' 1)]),
        self_P := Some [0],
        self_t := Some [0, 1, 2, 3, 4],
        U_hat := Some [[7, 8, 9, 10, 11], [8, 9, 10, 11, 12]]\<rparr>, Return_None)"
  unfolding createPCExpansion_nodes [OF generate_nodes_example]
  by (simp add: self_example_fields runParallelFunction_example fit_expansion_example)

lemma createPCExpansion_reversed:
  "createPCExpansion scipy_example chaospy_example model_example self_reversed None =
     (self_reversed\<lparr>tmp_parameter_name := [PyStr ''kappa'', PyStr ''T_env''],
        distribution := Some (J [PyDist (Dist ''Uniform(-0.075, -0.025)'' 1),
                                 PyDist (Dist ''Uniform(15, 25)'' 1)]),
        self_P := Some [0],
        self_t := Some [0, 1, 2, 3, 4],
        U_hat := Some [[7, 8, 9, 10, 11], [8, 9, 10, 11, 12]]\<rparr>, Return_None)"
  unfolding createPCExpansion_nodes [OF generate_nodes_reversed]
  by (simp add: self_reversed_fields runParallelFunction_example fit_expansion_example)

lemma createPCExpansion_mismatch:
  "createPCExpansion scipy_example chaospy_example model_example self_mismatch None =
     (self_mismatch\<lparr>tmp_parameter_name := [PyStr ''a'', PyStr ''b''],
        distribution := Some (J [PyDist (Dist ''J(Uniform(0, 1), Uniform(0, 1))'' 2),
                                 PyDist (Dist ''Uniform(0, 1)'' 1)]),
        self_P := Some [0],
        self_t := Some [0, 1, 2, 3, 4],
        U_hat := Some [[7, 8, 9, 10, 11], [8, 9, 10, 11, 12]]\<rparr>, Return_None)"
  unfolding createPCExpansion_nodes [OF generate_nodes_mismatch]
  by (simp add: self_mismatch_fields runParallelFunction_example fit_expansion_example)

lemma self_after_kappa_fields:
  "self_parameters self_after_kappa = params_example"
  "self_M self_after_kappa = 0"
  "features self_after_kappa = []"
  "uncertain_parameters self_after_kappa = [''kappa'', ''T_env'']"
  "statistics self_after_kappa = (Some [7, 7], Some [0, 0], Some [7, 7], Some [7, 7], None)"
  "U_hat self_after_kappa = Some [[7, 8, 9, 10], [7, 8, 9, 10]]"
  by (simp_all add: self_after_kappa_def self_example_def UncertaintyEstimation_init_def
        statistics_def)

lemma model_failing_T_env_fields:
  "modelfile model_failing_T_env = ''INmodel.hoc''"
  "modelpath model_failing_T_env = ''neuron_models/dLGN_modelDB/''"
  by (simp_all add: model_failing_T_env_def model_example_def)

lemma statistics_after_T_env:
  "statistics (self_after_kappa\<lparr>tmp_parameter_name := names, distribution := joint,
                                   self_P := basis\<rparr>)
     = (Some [7, 7], Some [0, 0], Some [7, 7], Some [7, 7], None)"
  by (simp add: statistics_def self_after_kappa_def self_example_def
        UncertaintyEstimation_init_def)

lemma generate_nodes_kappa:
  "generate_nodes chaospy_example self_example (Some ''kappa'') =
     (self_example\<lparr>tmp_parameter_name := [PyStr ''kappa''],
        distribution := Some (J [PyDist (Dist ''Uniform(-0.075, -0.025)'' 1)]),
        self_P := Some [0]\<rparr>,
      Inr ([0], [Scalar (PyFloat 0), Scalar (PyFloat 1)]))"
proof -
  have sn: "spaces_and_names (self_parameters self_example) (Some ''kappa'')
     = Inr ([PyDist (Dist ''Uniform(-0.075, -0.025)'' 1)], [PyStr ''kappa''])"
    by (simp add: self_example_fields sn_kappa)
  show ?thesis
    unfolding generate_nodes_returns [OF sn chaospy_example_returns(1) chaospy_example_returns(2)
        refl chaospy_example_returns(3)]
    by (simp add: self_example_fields chaospy_example_returns nodes_one_axis)
qed

lemma generate_nodes_T_env:
  "generate_nodes chaospy_example self_after_kappa (Some ''T_env'') =
     (self_after_kappa\<lparr>tmp_parameter_name := [PyStr ''T_env''],
        distribution := Some (J [PyDist (Dist ''Uniform(15, 25)'' 1)]),
        self_P := Some [0]\<rparr>,
      Inr ([0], [Scalar (PyFloat 0), Scalar (PyFloat 1)]))"
proof -
  have sn: "spaces_and_names (self_parameters self_after_kappa) (Some ''T_env'')
     = Inr ([PyDist (Dist ''Uniform(15, 25)'' 1)], [PyStr ''T_env''])"
    by (simp add: self_after_kappa_fields sn_T_env)
  show ?thesis
    unfolding generate_nodes_returns [OF sn chaospy_example_returns(1) chaospy_example_returns(2)
        refl chaospy_example_returns(3)]
    by (simp add: self_after_kappa_fields chaospy_example_returns nodes_one_axis)
qed

lemma generate_nodes_A:
  "generate_nodes chaospy_A self_example (Some ''kappa'') =
     (self_example\<lparr>tmp_parameter_name := [PyStr ''kappa''],
        distribution := Some (J [PyDist (Dist ''Uniform(-0.075, -0.025)'' 1)]),
        self_P := Some [0]\<rparr>,
      Inr ([0], [Scalar (PyFloat 1), Scalar (PyFloat 2)]))"
proof -
  have sn: "spaces_and_names (self_parameters self_example) (Some ''kappa'')
     = Inr ([PyDist (Dist ''Uniform(-0.075, -0.025)'' 1)], [PyStr ''kappa''])"
    by (simp add: self_example_fields sn_kappa)
  show ?thesis
    unfolding generate_nodes_returns [OF sn chaospy_A_returns(1) chaospy_A_returns(2)
        refl chaospy_A_returns(3)]
    by (simp add: self_example_fields chaospy_A_returns)
qed

lemma generate_nodes_B:
  "generate_nodes chaospy_B self_example (Some ''kappa'') =
     (self_example\<lparr>tmp_parameter_name := [PyStr ''kappa''],
        distribution := Some (J [PyDist (Dist ''Uniform(-0.075, -0.025)'' 1)]),
        self_P := Some [0]\<rparr>,
      Inr ([0], [Scalar (PyFloat 1), Scalar (PyFloat 3)]))"
proof -
  have sn: "spaces_and_names (self_parameters self_example) (Some ''kappa'')
     = Inr ([PyDist (Dist ''Uniform(-0.075, -0.025)'' 1)], [PyStr ''kappa''])"
    by (simp add: self_example_fields sn_kappa)
  show ?thesis
    unfolding generate_nodes_returns [OF sn chaospy_B_returns(1) chaospy_B_returns(2)
        refl chaospy_B_returns(3)]
    by (simp add: self_example_fields chaospy_B_returns)
qed

lemma createPCExpansion_kappa:
  "createPCExpansion scipy_example chaospy_example model_failing_T_env self_example (Some ''kappa'') =
     (self_example\<lparr>tmp_parameter_name := [PyStr ''kappa''],
        distribution := Some (J [PyDist (Dist ''Uniform(-0.075, -0.025)'' 1)]),
        self_P := Some [0],
        self_t := Some [0, 1, 2, 3],
        U_hat := Some [[7, 8, 9, 10], [7, 8, 9, 10]]\<rparr>, Return_None)"
  unfolding createPCExpansion_nodes [OF generate_nodes_kappa]
  by (simp add: self_example_fields runParallelFunction_failing_T_env fit_expansion_example)

lemma singleParameters_try_kappa:
  "singleParameters_try chaospy_example
     (self_example\<lparr>tmp_parameter_name := [PyStr ''kappa''],
        distribution := Some (J [PyDist (Dist ''Uniform(-0.075, -0.025)'' 1)]),
        self_P := Some [0],
        self_t := Some [0, 1, 2, 3],
        U_hat := Some [[7, 8, 9, 10], [7, 8, 9, 10]]\<rparr>)
     = (self_after_kappa, Return_None)"
  by (simp add: singleParameters_try_def try_call_def samples_def chaospy_example_def
        self_after_kappa_def Let_def)

lemma singleParameters_loop_kappa:
  "singleParameters_loop scipy_example chaospy_example model_failing_T_env self_example [''kappa'']
     = (self_after_kappa, Return_None)"
  by (simp add: createPCExpansion_kappa singleParameters_try_kappa except_MemoryError_def
        del: One_nat_def)

subsection \<open>The order of the joint distribution\<close>

text \<open>
  Claim C1 as the specification states it fails on the code. The parameters \<^verbatim>\<open>T_env\<close> and
  \<^verbatim>\<open>kappa\<close> are registered in this order, and both are uncertain; \<^verbatim>\<open>getUncertain\<close> returns
  the names and the distributions with \<^verbatim>\<open>kappa\<close> first, and \<^verbatim>\<open>createPCExpansion\<close> composes the
  joint distribution with the axis of \<^verbatim>\<open>kappa\<close> first: the order is that of the slots of the
  dictionary, not that of registration. Nor is the dimensionality the number of uncertain
  parameters: two uncertain parameters, one of them with a distribution of two axes, give
  a joint distribution of three axes.
\<close>

theorem registration_order_counterexample:
  "registered parameterlist_reversed = Inr [T_env, kappa]
   \<and> Parameters_init parameterlist_reversed = Inr params_reversed
   \<and> uncertain [T_env, kappa] = [T_env, kappa]
   \<and> getUncertain params_reversed ''name'' = Inr [PyStr ''kappa'', PyStr ''T_env'']
   \<and> getUncertain params_reversed ''parameter_space''
       = Inr [PyDist (Dist ''Uniform(-0.075, -0.025)'' 1), PyDist (Dist ''Uniform(15, 25)'' 1)]
   \<and> distribution (fst (createPCExpansion scipy_example chaospy_example model_example
                           self_reversed None))
       = Some (J [PyDist (Dist ''Uniform(-0.075, -0.025)'' 1), PyDist (Dist ''Uniform(15, 25)'' 1)])
   \<and> Parameters_init parameterlist_mismatch = Inr params_mismatch
   \<and> length (uncertain (dict_values (parameters params_mismatch))) = 2
   \<and> map_option len_Joint
        (distribution (fst (createPCExpansion scipy_example chaospy_example model_example
                              self_mismatch None))) = Some 3"
proof -
  have 1: "registered parameterlist_reversed = Inr [T_env, kappa]"
    by (simp add: parameterlist_reversed_def Parameter_init_def setDistribution_def example_defs)
  have 2: "Parameters_init parameterlist_reversed = Inr params_reversed"
    by (simp add: Parameters_init_def parameterlist_reversed_def params_reversed_def
          Parameter_init_def setDistribution_def example_defs)
  have 3: "uncertain [T_env, kappa] = [T_env, kappa]"
    by (simp add: uncertain_def example_defs)
  have 4: "getUncertain params_reversed ''name'' = Inr [PyStr ''kappa'', PyStr ''T_env'']"
    by (simp add: getUncertain_def values_reversed getUncertain_loop_name uncertain_def
          example_defs)
  have 5: "getUncertain params_reversed ''parameter_space''
       = Inr [PyDist (Dist ''Uniform(-0.075, -0.025)'' 1), PyDist (Dist ''Uniform(15, 25)'' 1)]"
    by (simp add: getUncertain_def values_reversed getUncertain_loop_parameter_space uncertain_def
          example_defs)
  have 6: "Parameters_init parameterlist_mismatch = Inr params_mismatch"
    by (simp add: Parameters_init_def parameterlist_mismatch_def params_mismatch_def
          Parameter_init_def setDistribution_def)
  have 7: "length (uncertain (dict_values (parameters params_mismatch))) = 2"
    by (simp add: values_mismatch uncertain_def)
  show ?thesis
    using 1 2 3 4 5 6 7 by (simp add: createPCExpansion_reversed createPCExpansion_mismatch)
qed

text \<open>
  Claim C1, amended. For a parameter list with distinct names, every entry of which
  registers, the constructor builds the dictionary of the registered parameters.
  \<^verbatim>\<open>getUncertain\<close> returns the names and the distributions of the uncertain parameters,
  each of them exactly once and both lists in the same order, which is the order of
  iteration of the dictionary: ascending in the slot that the name occupies in its hash
  table, whatever the order of registration. \<^verbatim>\<open>createPCExpansion\<close> keeps the names in that
  order and, when \<^verbatim>\<open>cp.J\<close> returns, the joint distribution of the distributions in that same
  order. The number of axes of the joint distribution is the sum of those of the
  parameters' distributions; it is the number \<open>k\<close> of uncertain parameters when each of
  their distributions has one axis.
\<close>

theorem composeJoint_iteration_order:
  assumes "registered parameterlist = Inr ps"
      and "distinct (map entry_name parameterlist)"
      and "self_parameters self = \<lparr>parameters = map (\<lambda>p. (name p, p)) ps\<rparr>"
      and "us = uncertain (dict_values (parameters (self_parameters self)))"
  shows "Parameters_init parameterlist = Inr (self_parameters self)
       \<and> mset us = mset (uncertain ps)
       \<and> sorted (map (\<lambda>p. slot_index (table_of (map entry_name parameterlist)) (name p)) us)
       \<and> getUncertain (self_parameters self) ''name'' = Inr (map (\<lambda>p. PyStr (name p)) us)
       \<and> getUncertain (self_parameters self) ''parameter_space'' = Inr (map parameter_space us)
       \<and> tmp_parameter_name (fst (createPCExpansion sp cp mdl self None))
           = map (\<lambda>p. PyStr (name p)) us
       \<and> (J_raises cp (map parameter_space us) = None \<longrightarrow>
            distribution (fst (createPCExpansion sp cp mdl self None))
              = Some (J (map parameter_space us)))
       \<and> len_Joint (J (map parameter_space us))
           = sum_list (map (\<lambda>p. axes (parameter_space p)) (uncertain ps))
       \<and> ((\<forall>p \<in> set (uncertain ps). axes (parameter_space p) = 1)
            \<longrightarrow> len_Joint (J (map parameter_space us)) = length (uncertain ps))"
proof -
  have "Parameters_loop [] parameterlist = Inr ([] @ map (\<lambda>p. (name p, p)) ps)"
    using assms(1,2) by (intro Parameters_loop_registered) auto
  then have init: "Parameters_init parameterlist = Inr (self_parameters self)"
    using assms(3) by (simp add: Parameters_init_def)
  have us: "us = uncertain (dict_values (map (\<lambda>p. (name p, p)) ps))"
    using assms(3,4) by simp
  have perm: "mset us = mset (uncertain ps)"
    unfolding us by (simp add: mset_uncertain_dict_values comp_def)
  have order: "sorted (map (\<lambda>p. slot_index (table_of (map entry_name parameterlist)) (name p)) us)"
    unfolding us registered_names [OF assms(1), symmetric]
    by (rule uncertain_sorted [OF dict_values_sorted])
  have names: "getUncertain (self_parameters self) ''name'' = Inr (map (\<lambda>p. PyStr (name p)) us)"
    by (simp add: getUncertain_def assms(4) getUncertain_loop_name)
  have spaces: "getUncertain (self_parameters self) ''parameter_space''
                  = Inr (map parameter_space us)"
    by (simp add: getUncertain_def assms(4) getUncertain_loop_parameter_space)
  have sn: "spaces_and_names (self_parameters self) None
              = Inr (map parameter_space us, map (\<lambda>p. PyStr (name p)) us)"
    using spaces_and_names_None [of "self_parameters self"] assms(4) by simp
  have tmp: "tmp_parameter_name (fst (createPCExpansion sp cp mdl self None))
           = map (\<lambda>p. PyStr (name p)) us"
    by (simp add: createPCExpansion_keeps generate_nodes_names [OF sn])
  have joint: "distribution (fst (createPCExpansion sp cp mdl self None))
              = Some (J (map parameter_space us))"
    if "J_raises cp (map parameter_space us) = None"
    by (simp add: createPCExpansion_keeps generate_nodes_distribution [OF sn that])
  have len: "len_Joint (J (map parameter_space us))
           = sum_list (map (\<lambda>p. axes (parameter_space p)) (uncertain ps))"
    using sum_list_axes_mset [OF perm, of "\<lambda>p. axes (parameter_space p)"] by (simp add: comp_def)
  have uni: "len_Joint (J (map parameter_space us)) = length (uncertain ps)"
    if "\<forall>p \<in> set (uncertain ps). axes (parameter_space p) = 1"
    using len len_Joint_univariate [OF that] by simp
  from init perm order names spaces tmp joint len uni show ?thesis by blast
qed

text \<open>
  The coffee-cup parameters: \<^verbatim>\<open>u_env\<close> comes first in the dictionary and has no
  distribution; \<^verbatim>\<open>kappa\<close> and \<^verbatim>\<open>T_env\<close> follow.
\<close>

theorem composeJoint_iteration_order_witness:
  "registered parameterlist_example = Inr [kappa, u_env, T_env]
   \<and> distinct (map entry_name parameterlist_example)
   \<and> Parameters_init parameterlist_example = Inr params_example
   \<and> uncertain (dict_values (parameters params_example)) = [kappa, T_env]
   \<and> getUncertain params_example ''name'' = Inr [PyStr ''kappa'', PyStr ''T_env'']
   \<and> getUncertain params_example ''parameter_space''
       = Inr [PyDist (Dist ''Uniform(-0.075, -0.025)'' 1), PyDist (Dist ''Uniform(15, 25)'' 1)]
   \<and> tmp_parameter_name (fst (createPCExpansion scipy_example chaospy_example model_example
                                 self_example None))
       = [PyStr ''kappa'', PyStr ''T_env'']
   \<and> distribution (fst (createPCExpansion scipy_example chaospy_example model_example
                           self_example None))
       = Some (J [PyDist (Dist ''Uniform(-0.075, -0.025)'' 1), PyDist (Dist ''Uniform(15, 25)'' 1)])
   \<and> len_Joint (J [PyDist (Dist ''Uniform(-0.075, -0.025)'' 1), PyDist (Dist ''Uniform(15, 25)'' 1)]) = 2"
proof -
  have h1: "registered parameterlist_example = Inr [kappa, u_env, T_env]"
    by (simp add: example_defs Parameter_init_def setDistribution_def)
  have h2: "distinct (map entry_name parameterlist_example)"
    by (simp add: example_defs)
  have h3: "self_parameters self_example = \<lparr>parameters = map (\<lambda>p. (name p, p)) [kappa, u_env, T_env]\<rparr>"
    by (simp add: self_example_fields params_example_def example_defs)
  have u: "uncertain (dict_values (parameters params_example)) = [kappa, T_env]"
    by (simp add: values_example uncertain_def example_defs)
  have j: "J_raises chaospy_example args = None" for args
    by (simp add: chaospy_example_def)
  from composeJoint_iteration_order [OF h1 h2 h3 refl, of scipy_example chaospy_example model_example]
  show ?thesis
    unfolding self_example_fields u using h1 h2 j by (simp add: example_defs)
qed

subsection \<open>Alignment\<close>

text \<open>
  Claim C3. On a non-empty batch the reference grid is the time vector of some entry; no
  entry has a longer time vector, and every entry before the chosen one has a strictly
  shorter one, so the first of the longest wins. There is one aligned result per entry,
  and each has the length of the reference grid.
\<close>

theorem align_reference_grid:
  assumes "solves \<noteq> []" and "align solves = (ts, interpolated_solves)"
  shows "\<exists>i < length solves.
           ts = fst (solves ! i)
         \<and> (\<forall>j < length solves. length (fst (solves ! j)) \<le> length ts)
         \<and> (\<forall>j < i. length (fst (solves ! j)) < length ts)
         \<and> length interpolated_solves = length solves
         \<and> (\<forall>r \<in> set interpolated_solves. length r = length ts)"
proof -
  let ?lengths = "map (\<lambda>s. length (fst s)) solves"
  let ?i = "argmax ?lengths"
  have ne: "?lengths \<noteq> []" using assms(1) by simp
  have i: "?i < length solves" using argmax_less [OF ne] by simp
  have ts: "ts = fst (solves ! ?i)"
    and isol: "interpolated_solves
                 = map (\<lambda>(s, V, interpolation). call_interpolant interpolation ts) solves"
    using assms(2) by (auto simp: align_def Let_def)
  have len: "length ts = ?lengths ! ?i" using ts i by simp
  have a: "\<forall>j < length solves. length (fst (solves ! j)) \<le> length ts"
  proof (intro allI impI)
    fix j assume j: "j < length solves"
    then have "?lengths ! j \<le> ?lengths ! ?i" using argmax_max [of j ?lengths] by simp
    with j len show "length (fst (solves ! j)) \<le> length ts" by simp
  qed
  have b: "\<forall>j < ?i. length (fst (solves ! j)) < length ts"
  proof (intro allI impI)
    fix j assume j: "j < ?i"
    then have "?lengths ! j < ?lengths ! ?i" using argmax_first [of j ?lengths] by simp
    moreover have "j < length solves" using j i by simp
    ultimately show "length (fst (solves ! j)) < length ts" using len by simp
  qed
  have c: "length interpolated_solves = length solves" using isol by simp
  have d: "\<forall>r \<in> set interpolated_solves. length r = length ts"
    using isol by (auto simp: call_interpolant_def)
  from i ts a b c d show ?thesis by blast
qed

theorem align_reference_grid_witness:
  "[solve_short, solve_long, solve_long] \<noteq> []
   \<and> align [solve_short, solve_long, solve_long]
     = ([0, 1, 2, 3, 4], [[7, 8, 9, 10, 11], [8, 9, 10, 11, 12], [8, 9, 10, 11, 12]])
   \<and> (\<exists>i < length [solve_short, solve_long, solve_long].
         [0, 1, 2, 3, 4] = fst ([solve_short, solve_long, solve_long] ! i)
       \<and> (\<forall>j < length [solve_short, solve_long, solve_long].
             length (fst ([solve_short, solve_long, solve_long] ! j)) \<le> length [0, 1, 2, 3, 4 :: real])
       \<and> (\<forall>j < i. length (fst ([solve_short, solve_long, solve_long] ! j)) < length [0, 1, 2, 3, 4 :: real])
       \<and> length [[7, 8, 9, 10, 11], [8, 9, 10, 11, 12], [8, 9, 10, 11, 12 :: real]]
           = length [solve_short, solve_long, solve_long]
       \<and> (\<forall>r \<in> set [[7, 8, 9, 10, 11], [8, 9, 10, 11, 12], [8, 9, 10, 11, 12 :: real]].
             length r = length [0, 1, 2, 3, 4 :: real]))"
proof -
  have ne: "[solve_short, solve_long, solve_long] \<noteq> []" by simp
  have run: "align [solve_short, solve_long, solve_long]
     = ([0, 1, 2, 3, 4], [[7, 8, 9, 10, 11], [8, 9, 10, 11, 12], [8, 9, 10, 11, 12]])"
    by (simp add: align_def solve_short_def solve_long_def call_interpolant_def Let_def)
  from align_reference_grid [OF ne run] ne run show ?thesis by blast
qed

subsection \<open>Generator functions\<close>

text \<open>
  Claim C5. \<^verbatim>\<open>setDistribution\<close> with a generator function calls it on the parameter's
  value and stores what it returns; it raises the \<^verbatim>\<open>TypeError\<close> "Function does not return a
  Chaospy distribution" (the specification's InvalidDistribution) exactly when the returned
  object is no \<^verbatim>\<open>cp.Dist\<close>, and otherwise returns with the returned distribution as the
  parameter's distribution. The constructor \<^verbatim>\<open>Parameter(name, value, f)\<close> fails or
  succeeds accordingly.
\<close>

theorem setDistribution_generator:
  "setDistribution self (Callable f) =
     (self\<lparr>parameter_space := f (value self)\<rparr>,
      if isinstance_Dist (f (value self)) then None
      else Some (TypeError ''Function does not return a Chaospy distribution''))
   \<and> Parameter_init n v (Callable f) =
     (if isinstance_Dist (f v) then Inr \<lparr>name = n, value = v, parameter_space = f v\<rparr>
      else Inl (TypeError ''Function does not return a Chaospy distribution''))"
  by (simp add: setDistribution_def Parameter_init_def Let_def)

theorem setDistribution_generator_witness:
  "setDistribution u_env (Callable (\<lambda>x. PyDist (Dist ''Normal'' 1)))
     = (u_env\<lparr>parameter_space := PyDist (Dist ''Normal'' 1)\<rparr>, None)
   \<and> setDistribution u_env (Callable (\<lambda>x. PyNum (x + 1)))
     = (u_env\<lparr>parameter_space := PyNum 4\<rparr>,
        Some (TypeError ''Function does not return a Chaospy distribution''))
   \<and> Parameter_init ''u_env'' 3 (Callable (\<lambda>x. PyNone))
     = Inl (TypeError ''Function does not return a Chaospy distribution'')"
  using setDistribution_generator [of u_env "\<lambda>x. PyDist (Dist ''Normal'' 1)" "''u_env''" 3]
    setDistribution_generator [of u_env "\<lambda>x. PyNum (x + 1)" "''u_env''" 3]
    setDistribution_generator [of u_env "\<lambda>x. PyNone" "''u_env''" 3]
  by (simp add: u_env_def)

subsection \<open>Nodes of a single uncertain parameter\<close>

lemma tmp_parameters_loop_Sequence:
  "tmp_parameters_loop d j names (Sequence xs) \<noteq> Inl (TypeError msg)"
  by (induction names arbitrary: d j) auto

lemma wrap_node_Sequence: "\<exists>xs. wrap_node nd = Sequence xs"
  by (cases nd) auto

lemma set_tmp_parameters_Scalar:
  "set_tmp_parameters ns (Scalar s) = set_tmp_parameters ns (Sequence [s])"
  by (simp add: set_tmp_parameters_def)

text \<open>
  Claim C9. Building the assignment never raises the \<^verbatim>\<open>TypeError\<close> of indexing a bare
  number, whatever the node and the names; a bare number with one parameter name yields
  the one-entry assignment; and in all three places where the source builds the
  assignment a bare number behaves as the one-element list that holds it.
\<close>

theorem set_tmp_parameters_never_indexes_scalar:
  "set_tmp_parameters names nd \<noteq> Inl (TypeError msg)
   \<and> set_tmp_parameters [p] (Scalar s) = Inr [(p, s)]
   \<and> set_tmp_parameters names (Scalar s) = set_tmp_parameters names (Sequence [s])
   \<and> evaluateNodeFunction sp env (dat\<lparr>node := Scalar s\<rparr>)
       = evaluateNodeFunction sp env (dat\<lparr>node := Sequence [s]\<rparr>)
   \<and> runParallel sp mdl self (Scalar s) = runParallel sp mdl self (Sequence [s])
   \<and> runParallelFunction sp mdl (Scalar s, names', rest)
       = runParallelFunction sp mdl (Sequence [s], names', rest)"
proof -
  obtain xs where "wrap_node nd = Sequence xs" using wrap_node_Sequence by blast
  then have 1: "set_tmp_parameters names nd \<noteq> Inl (TypeError msg)"
    by (simp add: set_tmp_parameters_def tmp_parameters_loop_Sequence)
  have 2: "set_tmp_parameters [p] (Scalar s) = Inr [(p, s)]"
    by (simp add: set_tmp_parameters_def)
  note 3 = set_tmp_parameters_Scalar
  have 4: "evaluateNodeFunction sp env (dat\<lparr>node := Scalar s\<rparr>)
       = evaluateNodeFunction sp env (dat\<lparr>node := Sequence [s]\<rparr>)"
    by (simp add: evaluateNodeFunction_def 3 simulation_cmd_def
             cong: sum.case_cong option.case_cong if_cong)
  have 5: "runParallel sp mdl self (Scalar s) = runParallel sp mdl self (Sequence [s])"
    by (simp add: runParallel_def 3)
  have 6: "runParallelFunction sp mdl (Scalar s, names', rest)
       = runParallelFunction sp mdl (Sequence [s], names', rest)"
    by (simp add: runParallelFunction_def 3 split: prod.splits)
  from 1 2 3 4 5 6 show ?thesis by blast
qed

text \<open>Without the wrapping the same loop does raise: the last conjunct.\<close>

theorem set_tmp_parameters_never_indexes_scalar_witness:
  "set_tmp_parameters [''kappa''] (Scalar (PyFloat 1)) = Inr [(''kappa'', PyFloat 1)]
   \<and> set_tmp_parameters [''kappa'', ''T_env''] (Scalar (PyInt 2)) = Inl IndexError
   \<and> tmp_parameters_loop [] 0 [''kappa''] (Scalar (PyFloat 1))
        = Inl (TypeError ''object has no attribute __getitem__'')"
  using set_tmp_parameters_never_indexes_scalar
          [of "[''kappa'', ''T_env'']" "Scalar (PyInt 2)" "[]" "''kappa''" "PyFloat 1"]
  by (simp add: set_tmp_parameters_def)

subsection \<open>The result mapping\<close>

text \<open>
  Claim C10. Whenever \<^verbatim>\<open>evaluateNodeFunction\<close> returns a result mapping, the mapping binds
  \<^verbatim>\<open>directComparison\<close> to the time vector and the output vector that the simulation left
  behind and to the spline that \<^verbatim>\<open>InterpolatedUnivariateSpline(t, U, k=3)\<close> built from them,
  whatever the feature list and whatever the feature class returned.
\<close>

theorem evaluateNodeFunction_directComparison:
  assumes "evaluateNodeFunction sp env dat = (printed, Inr results)"
  shows "\<exists>tmp_parameters ts U interpolation.
           set_tmp_parameters (tmp_parameter_names dat) (node dat) = Inr tmp_parameters
         \<and> tmp_t (Popen env (simulation_cmd env dat tmp_parameters)) = Some ts
         \<and> tmp_U (Popen env (simulation_cmd env dat tmp_parameters)) = Some U
         \<and> InterpolatedUnivariateSpline sp ts U 3 = Inr interpolation
         \<and> dict_getitem results ''directComparison'' = Inr (array ts, array U, Some interpolation)"
  using assms
  by (auto simp: evaluateNodeFunction_def Let_def dict_getitem_setitem
           split: sum.splits if_splits option.splits)

text \<open>
  The feature class of the example returns three features, one of them under the name
  \<^verbatim>\<open>directComparison\<close>; they are met in the order of their slots, and the last assignment
  of the function replaces the entry of that name.
\<close>

theorem evaluateNodeFunction_directComparison_witness:
  "evaluateNodeFunction scipy_example process_example data_example
     = ([], Inr [(''directComparison'', array [0, 1, 2, 3], array [7, 7, 7, 7], Some (\<lambda>x. 7 + x)),
                 (''spikes'', FSeq [FNum 1], FSeq [FNum 7], Some (\<lambda>x. 7 + x)),
                 (''nrSpikes'', FNone, FNum 2, None)])
   \<and> (\<exists>tmp_parameters ts U interpolation.
           set_tmp_parameters (tmp_parameter_names data_example) (node data_example) = Inr tmp_parameters
         \<and> tmp_t (Popen process_example (simulation_cmd process_example data_example tmp_parameters)) = Some ts
         \<and> tmp_U (Popen process_example (simulation_cmd process_example data_example tmp_parameters)) = Some U
         \<and> InterpolatedUnivariateSpline scipy_example ts U 3 = Inr interpolation
         \<and> dict_getitem [(''directComparison'', array [0, 1, 2, 3], array [7, 7, 7, 7], Some (\<lambda>x. 7 + x)),
                 (''spikes'', FSeq [FNum 1], FSeq [FNum 7], Some (\<lambda>x. 7 + x)),
                 (''nrSpikes'', FNone, FNum 2, None)] ''directComparison''
             = Inr (array ts, array U, Some interpolation))"
proof -
  have run: "evaluateNodeFunction scipy_example process_example data_example
     = ([], Inr [(''directComparison'', array [0, 1, 2, 3], array [7, 7, 7, 7], Some (\<lambda>x. 7 + x)),
                 (''spikes'', FSeq [FNum 1], FSeq [FNum 7], Some (\<lambda>x. 7 + x)),
                 (''nrSpikes'', FNone, FNum 2, None)])"
    by (simp add: evaluateNodeFunction_def process_example_def data_example_def scipy_example_def
          set_tmp_parameters_def dict_items_features Let_def)
  from evaluateNodeFunction_directComparison [OF run] run show ?thesis by blast
qed

subsection \<open>The regression nodes\<close>

text \<open>
  Claim C6. Provided the sampler returns as many nodes as it is asked for, the regression
  node set has exactly twice as many nodes as the basis has polynomials; and in every run
  of \<^verbatim>\<open>createPCExpansion\<close> that returns, the model was evaluated on the regression nodes of
  the basis of degree \<^verbatim>\<open>self.M\<close> for the joint distribution the run composed, once per
  node, that is twice the number of basis polynomials times.
\<close>

theorem regression_nodes_twice_basis:
  assumes "\<forall>joint n. length (sample cp joint n ''M'') = n"
  shows "length (regression_nodes cp basis joint) = 2 * length basis
       \<and> (createPCExpansion sp cp mdl self pn = (self', Return_None) \<longrightarrow>
            (\<exists>joint solves.
                distribution self' = Some joint
              \<and> self_P self' = Some (orth_ttr cp (self_M self) joint)
              \<and> solves_loop sp mdl
                   (map (\<lambda>nd. (nd, tmp_parameter_name self', modelfile mdl, modelpath mdl, features self))
                        (regression_nodes cp (orth_ttr cp (self_M self) joint) joint)) = Inr solves
              \<and> length solves = 2 * length (orth_ttr cp (self_M self) joint)))"
proof
  show len: "length (regression_nodes cp basis joint) = 2 * length basis" for basis joint
    using assms by (simp add: regression_nodes_def)
  show "createPCExpansion sp cp mdl self pn = (self', Return_None) \<longrightarrow>
            (\<exists>joint solves.
                distribution self' = Some joint
              \<and> self_P self' = Some (orth_ttr cp (self_M self) joint)
              \<and> solves_loop sp mdl
                   (map (\<lambda>nd. (nd, tmp_parameter_name self', modelfile mdl, modelpath mdl, features self))
                        (regression_nodes cp (orth_ttr cp (self_M self) joint) joint)) = Inr solves
              \<and> length solves = 2 * length (orth_ttr cp (self_M self) joint))"
  proof
    assume run: "createPCExpansion sp cp mdl self pn = (self', Return_None)"
    from createPCExpansion_Return_None [OF run] obtain spaces names solves where
      solves: "solves_loop sp mdl
             (map (\<lambda>nd. (nd, names, modelfile mdl, modelpath mdl, features self))
                  (regression_nodes cp (orth_ttr cp (self_M self) (J spaces)) (J spaces)))
             = Inr solves"
      and self': "self' = self\<lparr>tmp_parameter_name := names, distribution := Some (J spaces),
                          self_P := Some (orth_ttr cp (self_M self) (J spaces)),
                          self_t := Some (fst (align solves)),
                          U_hat := Some (fit_regression cp (orth_ttr cp (self_M self) (J spaces))
                                          (regression_nodes cp (orth_ttr cp (self_M self) (J spaces)) (J spaces))
                                          (snd (align solves)) ''T'')\<rparr>"
      by blast
    have "length solves = 2 * length (orth_ttr cp (self_M self) (J spaces))"
      using solves_loop_length [OF solves] len by simp
    with solves self' show "\<exists>joint solves.
                distribution self' = Some joint
              \<and> self_P self' = Some (orth_ttr cp (self_M self) joint)
              \<and> solves_loop sp mdl
                   (map (\<lambda>nd. (nd, tmp_parameter_name self', modelfile mdl, modelpath mdl, features self))
                        (regression_nodes cp (orth_ttr cp (self_M self) joint) joint)) = Inr solves
              \<and> length solves = 2 * length (orth_ttr cp (self_M self) joint)" by auto
  qed
qed

text \<open>The run of degree 0 on the coffee-cup parameters: one polynomial, two nodes.\<close>

theorem regression_nodes_twice_basis_witness:
  "(\<forall>joint n. length (sample chaospy_example joint n ''M'') = n)
   \<and> length (regression_nodes chaospy_example [0 :: nat, 1, 2, 3] (J [PyDist (Dist ''Uniform(0, 1)'' 1)])) = 8
   \<and> createPCExpansion scipy_example chaospy_example model_example self_example None
       = (fst (createPCExpansion scipy_example chaospy_example model_example self_example None),
          Return_None)
   \<and> (\<exists>joint solves.
          distribution (fst (createPCExpansion scipy_example chaospy_example model_example
                               self_example None)) = Some joint
        \<and> self_P (fst (createPCExpansion scipy_example chaospy_example model_example
                               self_example None))
            = Some (orth_ttr chaospy_example (self_M self_example) joint)
        \<and> solves_loop scipy_example model_example
             (map (\<lambda>nd. (nd, tmp_parameter_name
                               (fst (createPCExpansion scipy_example chaospy_example model_example
                                       self_example None)),
                          modelfile model_example, modelpath model_example, features self_example))
                  (regression_nodes chaospy_example
                     (orth_ttr chaospy_example (self_M self_example) joint) joint)) = Inr solves
        \<and> length solves = 2 * length (orth_ttr chaospy_example (self_M self_example) joint))"
proof -
  have h: "\<forall>joint n. length (sample chaospy_example joint n ''M'') = n"
    by (simp add: sample_example_length)
  have run: "createPCExpansion scipy_example chaospy_example model_example self_example None
       = (fst (createPCExpansion scipy_example chaospy_example model_example self_example None),
          Return_None)"
    by (simp add: createPCExpansion_example)
  from regression_nodes_twice_basis [OF h, of "[0, 1, 2, 3]" "J [PyDist (Dist ''Uniform(0, 1)'' 1)]"
      scipy_example model_example self_example None
      "fst (createPCExpansion scipy_example chaospy_example model_example self_example None)"]
    h run
  show ?thesis by simp
qed

subsection \<open>Dimensionality\<close>

text \<open>
  Claim C4 as the specification states it fails on the code. Two uncertain parameters are
  registered, one of them with a distribution of two axes, so the distribution composed
  for them has three axes; the constructor accepts them and, with chaospy calls that
  return, \<^verbatim>\<open>createPCExpansion\<close> returns normally: the nodes have three components, both are
  evaluated, and the expansion is fitted. No error is raised, before or after the
  evaluations.
\<close>

theorem dimension_mismatch_counterexample:
  "Parameters_init parameterlist_mismatch = Inr params_mismatch
   \<and> length (uncertain (dict_values (parameters params_mismatch))) = 2
   \<and> snd (createPCExpansion scipy_example chaospy_example model_example self_mismatch None)
       = Return_None
   \<and> map_option len_Joint
        (distribution (fst (createPCExpansion scipy_example chaospy_example model_example
                              self_mismatch None))) = Some 3
   \<and> regression_nodes chaospy_example [0]
        (J [PyDist (Dist ''J(Uniform(0, 1), Uniform(0, 1))'' 2), PyDist (Dist ''Uniform(0, 1)'' 1)])
       = [Sequence [PyFloat 0, PyFloat 0, PyFloat 0], Sequence [PyFloat 1, PyFloat 1, PyFloat 1]]
   \<and> solves_loop scipy_example model_example
        [(Sequence [PyFloat 0, PyFloat 0, PyFloat 0], [PyStr ''a'', PyStr ''b''],
          modelfile model_example, modelpath model_example, []),
         (Sequence [PyFloat 1, PyFloat 1, PyFloat 1], [PyStr ''a'', PyStr ''b''],
          modelfile model_example, modelpath model_example, [])]
       = Inr [solve_short, solve_long]
   \<and> U_hat (fst (createPCExpansion scipy_example chaospy_example model_example self_mismatch None))
       = Some [[7, 8, 9, 10, 11], [8, 9, 10, 11, 12]]"
proof -
  have 1: "Parameters_init parameterlist_mismatch = Inr params_mismatch"
    by (simp add: Parameters_init_def parameterlist_mismatch_def params_mismatch_def
          Parameter_init_def setDistribution_def)
  have 2: "length (uncertain (dict_values (parameters params_mismatch))) = 2"
    by (simp add: values_mismatch uncertain_def)
  show ?thesis
    using 1 2
    by (simp add: createPCExpansion_mismatch nodes_mismatch runParallelFunction_example)
qed

text \<open>
  Claim C4, amended. The code checks no dimensionality. \<^verbatim>\<open>Parameter\<close> accepts a \<^verbatim>\<open>cp.Dist\<close>
  with any number of axes; \<^verbatim>\<open>createPCExpansion\<close> without a parameter name composes the joint
  distribution of the uncertain parameters' own distributions, whose number of axes is
  the sum of theirs, whatever the number of uncertain parameters; and whenever \<^verbatim>\<open>cp.J\<close>,
  \<^verbatim>\<open>cp.orth_ttr\<close> and the sampler return and there is a node, the first stage ends with the
  nodes, the evaluation of the first node is started, and the call ends as the
  evaluations and the fit end.
\<close>

theorem createPCExpansion_no_dimension_check:
  assumes "us = uncertain (dict_values (parameters (self_parameters self)))"
      and "joint = J (map parameter_space us)"
      and "J_raises cp (map parameter_space us) = None"
      and "orth_ttr_raises cp (self_M self) joint = None"
      and "basis = orth_ttr cp (self_M self) joint"
      and "sample_raises cp joint (2 * length basis) ''M'' = None"
      and "nodes = regression_nodes cp basis joint"
      and "nodes \<noteq> []"
      and "self1 = self\<lparr>tmp_parameter_name := map (\<lambda>p. PyStr (name p)) us,
                         distribution := Some joint, self_P := Some basis\<rparr>"
      and "all_data = map (\<lambda>nd. (nd, tmp_parameter_name self1, modelfile mdl, modelpath mdl,
                                  features self)) nodes"
  shows "Parameter_init n v (DistArg d) = Inr \<lparr>name = n, value = v, parameter_space = PyDist d\<rparr>
       \<and> len_Joint joint = sum_list (map (\<lambda>p. axes (parameter_space p)) us)
       \<and> generate_nodes cp self None = (self1, Inr (basis, nodes))
       \<and> 0 < calls_started sp mdl all_data
       \<and> createPCExpansion sp cp mdl self None =
           (case solves_loop sp mdl all_data of
              Inl e \<Rightarrow> (self1, Raise e)
            | Inr solves \<Rightarrow> fit_expansion sp cp self1 basis nodes solves)"
proof -
  have sn: "spaces_and_names (self_parameters self) None
              = Inr (map parameter_space us, map (\<lambda>p. PyStr (name p)) us)"
    using assms(1) by (simp add: spaces_and_names_None)
  have 1: "Parameter_init n v (DistArg d) = Inr \<lparr>name = n, value = v, parameter_space = PyDist d\<rparr>"
    by (simp add: Parameter_init_def setDistribution_def)
  have 2: "len_Joint joint = sum_list (map (\<lambda>p. axes (parameter_space p)) us)"
    using assms(2) by (simp add: comp_def)
  have 3: "generate_nodes cp self None = (self1, Inr (basis, nodes))"
    using generate_nodes_returns [OF sn assms(3), where basis = basis]
      assms(2,4,5,6,7,9) by simp
  have 4: "0 < calls_started sp mdl all_data"
    using assms(8,10) by (intro calls_started_positive) simp
  have data: "all_data = map (\<lambda>nd. (nd, tmp_parameter_name self1, modelfile mdl, modelpath mdl,
                                      features self1)) nodes"
    using assms(9,10) by simp
  have 5: "createPCExpansion sp cp mdl self None =
           (case solves_loop sp mdl all_data of
              Inl e \<Rightarrow> (self1, Raise e)
            | Inr solves \<Rightarrow> fit_expansion sp cp self1 basis nodes solves)"
    unfolding createPCExpansion_nodes [OF 3] data using assms(8) by simp
  from 1 2 3 4 5 show ?thesis by blast
qed

text \<open>
  The two parameters with three axes under a simulator that fails on the first node: the
  run gets as far as that evaluation.
\<close>

theorem createPCExpansion_no_dimension_check_witness:
  "uncertain (dict_values (parameters (self_parameters self_mismatch)))
     = [\<lparr>name = ''a'', value = 1, parameter_space = PyDist (Dist ''J(Uniform(0, 1), Uniform(0, 1))'' 2)\<rparr>,
        \<lparr>name = ''b'', value = 2, parameter_space = PyDist (Dist ''Uniform(0, 1)'' 1)\<rparr>]
   \<and> Parameter_init ''a'' 1 (DistArg (Dist ''J(Uniform(0, 1), Uniform(0, 1))'' 2))
       = Inr \<lparr>name = ''a'', value = 1, parameter_space = PyDist (Dist ''J(Uniform(0, 1), Uniform(0, 1))'' 2)\<rparr>
   \<and> len_Joint (J [PyDist (Dist ''J(Uniform(0, 1), Uniform(0, 1))'' 2), PyDist (Dist ''Uniform(0, 1)'' 1)]) = 3
   \<and> generate_nodes chaospy_example self_mismatch None
       = (self_mismatch\<lparr>tmp_parameter_name := [PyStr ''a'', PyStr ''b''],
            distribution := Some (J [PyDist (Dist ''J(Uniform(0, 1), Uniform(0, 1))'' 2),
                                     PyDist (Dist ''Uniform(0, 1)'' 1)]),
            self_P := Some [0]\<rparr>,
          Inr ([0], [Sequence [PyFloat 0, PyFloat 0, PyFloat 0],
                     Sequence [PyFloat 1, PyFloat 1, PyFloat 1]]))
   \<and> 0 < calls_started scipy_example model_failing
            [(Sequence [PyFloat 0, PyFloat 0, PyFloat 0], [PyStr ''a'', PyStr ''b''],
              modelfile model_failing, modelpath model_failing, []),
             (Sequence [PyFloat 1, PyFloat 1, PyFloat 1], [PyStr ''a'', PyStr ''b''],
              modelfile model_failing, modelpath model_failing, [])]
   \<and> createPCExpansion scipy_example chaospy_example model_failing self_mismatch None
       = (self_mismatch\<lparr>tmp_parameter_name := [PyStr ''a'', PyStr ''b''],
            distribution := Some (J [PyDist (Dist ''J(Uniform(0, 1), Uniform(0, 1))'' 2),
                                     PyDist (Dist ''Uniform(0, 1)'' 1)]),
            self_P := Some [0]\<rparr>, Raise (ModelError ''boom''))"
proof -
  have us: "uncertain (dict_values (parameters (self_parameters self_mismatch)))
     = [\<lparr>name = ''a'', value = 1, parameter_space = PyDist (Dist ''J(Uniform(0, 1), Uniform(0, 1))'' 2)\<rparr>,
        \<lparr>name = ''b'', value = 2, parameter_space = PyDist (Dist ''Uniform(0, 1)'' 1)\<rparr>]"
    by (simp add: self_mismatch_fields values_mismatch uncertain_def)
  have us': "uncertain (dict_values (parameters params_mismatch))
     = [\<lparr>name = ''a'', value = 1, parameter_space = PyDist (Dist ''J(Uniform(0, 1), Uniform(0, 1))'' 2)\<rparr>,
        \<lparr>name = ''b'', value = 2, parameter_space = PyDist (Dist ''Uniform(0, 1)'' 1)\<rparr>]"
    by (simp add: values_mismatch uncertain_def)
  have h3: "J_raises chaospy_example
              (map parameter_space (uncertain (dict_values (parameters (self_parameters self_mismatch)))))
            = None"
    by (rule chaospy_example_returns)
  have h4: "orth_ttr_raises chaospy_example (self_M self_mismatch)
              (J (map parameter_space (uncertain (dict_values (parameters (self_parameters self_mismatch))))))
            = None"
    by (rule chaospy_example_returns)
  have h6: "sample_raises chaospy_example
              (J (map parameter_space (uncertain (dict_values (parameters (self_parameters self_mismatch))))))
              (2 * length (orth_ttr chaospy_example (self_M self_mismatch)
                 (J (map parameter_space (uncertain (dict_values (parameters (self_parameters self_mismatch))))))))
              ''M'' = None"
    by (rule chaospy_example_returns)
  have nodes: "regression_nodes chaospy_example
                 (orth_ttr chaospy_example (self_M self_mismatch)
                    (J (map parameter_space (uncertain (dict_values (parameters (self_parameters self_mismatch)))))))
                 (J (map parameter_space (uncertain (dict_values (parameters (self_parameters self_mismatch))))))
               = [Sequence [PyFloat 0, PyFloat 0, PyFloat 0], Sequence [PyFloat 1, PyFloat 1, PyFloat 1]]"
    by (simp add: us' self_mismatch_fields chaospy_example_returns nodes_mismatch)
  have h8: "regression_nodes chaospy_example
                 (orth_ttr chaospy_example (self_M self_mismatch)
                    (J (map parameter_space (uncertain (dict_values (parameters (self_parameters self_mismatch)))))))
                 (J (map parameter_space (uncertain (dict_values (parameters (self_parameters self_mismatch))))))
               \<noteq> []"
    by (simp add: nodes)
  from createPCExpansion_no_dimension_check
      [where n = "''a''" and v = 1 and d = "Dist ''J(Uniform(0, 1), Uniform(0, 1))'' 2"
         and sp = scipy_example and mdl = model_failing,
       OF refl refl h3 h4 refl h6 refl h8 refl refl]
  show ?thesis
    unfolding nodes unfolding us
    by (simp add: self_mismatch_fields chaospy_example_returns runParallelFunction_failing)
qed

subsection \<open>Failing nodes\<close>

text \<open>
  Claim C2 as the specification states it fails on the code. The failure is not surfaced
  with the node's parameter vector: under two samplers the simulator fails on the second
  node, the vector \<open>2\<close> under one and the vector \<open>3\<close> under the other, and the two runs end
  in the same state with the same exception after the same output. Nor is a run without
  statistics: \<^verbatim>\<open>singleParameters\<close>, failing in its second parameter, ends with the
  simulator's exception and leaves the mean, the variance and the percentiles of the first
  parameter assigned. Likewise \<^verbatim>\<open>evaluateNodeFunction\<close> prints the same lines and exits with
  the same status for two different nodes.
\<close>

theorem node_failure_report_counterexample:
  "createPCExpansion scipy_example chaospy_A model_failing self_example (Some ''kappa'')
     = createPCExpansion scipy_example chaospy_B model_failing self_example (Some ''kappa'')
   \<and> createPCExpansion_prints scipy_example chaospy_A model_failing self_example (Some ''kappa'')
     = createPCExpansion_prints scipy_example chaospy_B model_failing self_example (Some ''kappa'')
   \<and> snd (createPCExpansion scipy_example chaospy_A model_failing self_example (Some ''kappa''))
       = Raise (ModelError ''boom'')
   \<and> regression_nodes chaospy_A [0] (J [PyDist (Dist ''Uniform(-0.075, -0.025)'' 1)])
       = [Scalar (PyFloat 1), Scalar (PyFloat 2)]
   \<and> regression_nodes chaospy_B [0] (J [PyDist (Dist ''Uniform(-0.075, -0.025)'' 1)])
       = [Scalar (PyFloat 1), Scalar (PyFloat 3)]
   \<and> runParallelFunction scipy_example model_failing
        (Scalar (PyFloat 1), [PyStr ''kappa''], modelfile model_failing, modelpath model_failing, [])
       = Inr solve_short
   \<and> runParallelFunction scipy_example model_failing
        (Scalar (PyFloat 2), [PyStr ''kappa''], modelfile model_failing, modelpath model_failing, [])
       = Inl (ModelError ''boom'')
   \<and> runParallelFunction scipy_example model_failing
        (Scalar (PyFloat 3), [PyStr ''kappa''], modelfile model_failing, modelpath model_failing, [])
       = Inl (ModelError ''boom'')
   \<and> snd (singleParameters scipy_example chaospy_example model_failing_T_env self_example)
       = Raise (ModelError ''boom'')
   \<and> statistics (fst (singleParameters scipy_example chaospy_example model_failing_T_env self_example))
       = (Some [7, 7], Some [0, 0], Some [7, 7], Some [7, 7], None)
   \<and> evaluateNodeFunction scipy_example process_failing (data_example\<lparr>node := Scalar (PyFloat 1)\<rparr>)
       = ([''out'', ''Error when running simulation:'', ''boom''], Inl (SystemExit 1))
   \<and> evaluateNodeFunction scipy_example process_failing (data_example\<lparr>node := Scalar (PyFloat 2)\<rparr>)
       = ([''out'', ''Error when running simulation:'', ''boom''], Inl (SystemExit 1))"
proof -
  have A: "createPCExpansion scipy_example chaospy_A model_failing self_example (Some ''kappa'')
     = (self_example\<lparr>tmp_parameter_name := [PyStr ''kappa''],
          distribution := Some (J [PyDist (Dist ''Uniform(-0.075, -0.025)'' 1)]),
          self_P := Some [0]\<rparr>, Raise (ModelError ''boom''))"
    and PA: "createPCExpansion_prints scipy_example chaospy_A model_failing self_example (Some ''kappa'')
     = [Tuple (Scalar (PyFloat 1), [PyStr ''kappa''], modelfile model_failing,
               modelpath model_failing, []),
        Line ''haha'', Line (modelfile model_failing), Line (modelpath model_failing),
        Line ''haha'', Line (modelfile model_failing), Line (modelpath model_failing)]"
    using createPCExpansion_first_failure [OF generate_nodes_A, of 1 scipy_example
        model_failing "ModelError ''boom''"]
    by (simp_all add: runParallelFunction_failing self_example_fields numeral_2_eq_2
          del: split_paired_Ex)
  have B: "createPCExpansion scipy_example chaospy_B model_failing self_example (Some ''kappa'')
     = (self_example\<lparr>tmp_parameter_name := [PyStr ''kappa''],
          distribution := Some (J [PyDist (Dist ''Uniform(-0.075, -0.025)'' 1)]),
          self_P := Some [0]\<rparr>, Raise (ModelError ''boom''))"
    and PB: "createPCExpansion_prints scipy_example chaospy_B model_failing self_example (Some ''kappa'')
     = [Tuple (Scalar (PyFloat 1), [PyStr ''kappa''], modelfile model_failing,
               modelpath model_failing, []),
        Line ''haha'', Line (modelfile model_failing), Line (modelpath model_failing),
        Line ''haha'', Line (modelfile model_failing), Line (modelpath model_failing)]"
    using createPCExpansion_first_failure [OF generate_nodes_B, of 1 scipy_example
        model_failing "ModelError ''boom''"]
    by (simp_all add: runParallelFunction_failing self_example_fields numeral_2_eq_2
          del: split_paired_Ex)
  have T: "createPCExpansion scipy_example chaospy_example model_failing_T_env self_after_kappa
             (Some ''T_env'')
     = (self_after_kappa\<lparr>tmp_parameter_name := [PyStr ''T_env''],
          distribution := Some (J [PyDist (Dist ''Uniform(15, 25)'' 1)]),
          self_P := Some [0]\<rparr>, Raise (ModelError ''boom''))"
    using createPCExpansion_first_failure(1) [OF generate_nodes_T_env, of 0 scipy_example
        model_failing_T_env "ModelError ''boom''"]
    by (simp add: runParallelFunction_failing_T_env self_after_kappa_fields)
  have S: "singleParameters scipy_example chaospy_example model_failing_T_env self_example
     = (self_after_kappa\<lparr>tmp_parameter_name := [PyStr ''T_env''],
          distribution := Some (J [PyDist (Dist ''Uniform(15, 25)'' 1)]),
          self_P := Some [0]\<rparr>, Raise (ModelError ''boom''))"
  proof -
    have "singleParameters scipy_example chaospy_example model_failing_T_env self_example
            = singleParameters_loop scipy_example chaospy_example model_failing_T_env self_example
                ([''kappa''] @ [''T_env''])"
      by (simp only: singleParameters_def self_example_fields append.simps)
    also have "\<dots> = singleParameters_loop scipy_example chaospy_example model_failing_T_env
                          self_after_kappa [''T_env'']"
      unfolding singleParameters_loop_append singleParameters_loop_kappa by simp
    also have "\<dots> = (self_after_kappa\<lparr>tmp_parameter_name := [PyStr ''T_env''],
          distribution := Some (J [PyDist (Dist ''Uniform(15, 25)'' 1)]),
          self_P := Some [0]\<rparr>, Raise (ModelError ''boom''))"
      by (simp add: T del: One_nat_def)
    finally show ?thesis .
  qed
  have E: "evaluateNodeFunction scipy_example process_failing (data_example\<lparr>node := Scalar (PyFloat x)\<rparr>)
       = ([''out'', ''Error when running simulation:'', ''boom''], Inl (SystemExit 1))" for x
    by (simp add: evaluateNodeFunction_def process_failing_def process_example_def
          data_example_def set_tmp_parameters_def Let_def)
  show ?thesis
    by (simp add: A B PA PB S E chaospy_A_returns chaospy_B_returns runParallelFunction_failing
          statistics_after_T_env)
qed

text \<open>
  Claim C2, amended. When the nodes are drawn, the evaluation of a node raises and every
  node before it was evaluated, \<^verbatim>\<open>createPCExpansion\<close> ends with that exception and assigns
  no statistic (mean, variance, percentiles, sensitivity) and no expansion; it has printed
  the tuple of the first node and, once per call it started, the line \<^verbatim>\<open>haha\<close>, the model
  file and the model path, and nothing else: the vector of the failing node is not
  reported (the tuple printed is that of the first node, whichever node fails), and its
  index shows only in the number of calls started.
  \<^verbatim>\<open>allParameters\<close> with more than one uncertain parameter ends
  with the same exception in the same state. \<^verbatim>\<open>singleParameters\<close>, for a failure in any of
  its parameters, ends with the same exception and leaves the statistics as the
  parameters it completed before left them (and \<^verbatim>\<open>allParameters\<close>, where it hands over to
  \<^verbatim>\<open>singleParameters\<close>, does the same). In \<^verbatim>\<open>evaluateNodeFunction\<close> a simulation that exits
  with a non-zero status makes the function print the simulator's output, the line "Error
  when running simulation:" and the simulator's error stream, and exit with status 1
  without a result mapping.
\<close>

theorem node_failure_aborts:
  assumes gen: "generate_nodes cp self pn = (self1, Inr (basis, nodes))"
      and i: "i < length nodes"
      and fail: "runParallelFunction sp mdl
                   (nodes ! i, tmp_parameter_name self1, modelfile mdl, modelpath mdl,
                    features self1) = Inl e"
      and before: "\<forall>j < i. \<exists>s. runParallelFunction sp mdl
                   (nodes ! j, tmp_parameter_name self1, modelfile mdl, modelpath mdl,
                    features self1) = Inr s"
  shows "createPCExpansion sp cp mdl self pn = (self1, Raise e)
       \<and> statistics self1 = statistics self
       \<and> U_hat self1 = U_hat self
       \<and> createPCExpansion_prints sp cp mdl self pn =
           Tuple (nodes ! 0, tmp_parameter_name self1, modelfile mdl, modelpath mdl, features self1)
             # concat (replicate (Suc i) [Line ''haha'', Line (modelfile mdl), Line (modelpath mdl)])
       \<and> (pn = None \<and> 1 < length (uncertain_parameters self) \<longrightarrow>
            allParameters sp cp mdl self = (self1, Raise e))
       \<and> (\<forall>self0 finished p rest.
            pn = Some p \<and> uncertain_parameters self0 = finished @ p # rest
            \<and> singleParameters_loop sp cp mdl self0 finished = (self, Return_None) \<longrightarrow>
              singleParameters sp cp mdl self0 = (self1, Raise e)
            \<and> (length (uncertain_parameters self0) \<le> 1 \<and> U_hat self0 = None \<longrightarrow>
                 allParameters sp cp mdl self0 = (self1, Raise e)))
       \<and> (set_tmp_parameters (tmp_parameter_names dat) (node dat) = Inr tmp_parameters
          \<and> returncode (Popen env (simulation_cmd env dat tmp_parameters)) \<noteq> 0 \<longrightarrow>
            evaluateNodeFunction sp env dat =
              ((if supress_model_output dat then []
                else [ut (Popen env (simulation_cmd env dat tmp_parameters))])
                 @ [ut (Popen env (simulation_cmd env dat tmp_parameters)),
                    ''Error when running simulation:'',
                    err (Popen env (simulation_cmd env dat tmp_parameters))],
               Inl (SystemExit 1)))"
proof -
  note run = createPCExpansion_first_failure [OF gen i fail before]
  note fields = generate_nodes_fields [OF gen]
  have 1: "createPCExpansion sp cp mdl self pn = (self1, Raise e)" by (rule run(1))
  have 2: "statistics self1 = statistics self" using fields by simp
  have 3: "U_hat self1 = U_hat self" using fields by simp
  note 4 = run(2)
  have 5: "allParameters sp cp mdl self = (self1, Raise e)"
    if "pn = None \<and> 1 < length (uncertain_parameters self)"
    using that run(1) by (simp add: allParameters_def)
  have 6: "singleParameters sp cp mdl self0 = (self1, Raise e)
            \<and> (length (uncertain_parameters self0) \<le> 1 \<and> U_hat self0 = None \<longrightarrow>
                 allParameters sp cp mdl self0 = (self1, Raise e))"
    if h: "pn = Some p \<and> uncertain_parameters self0 = finished @ p # rest
            \<and> singleParameters_loop sp cp mdl self0 finished = (self, Return_None)"
    for self0 finished p rest
  proof -
    have "singleParameters sp cp mdl self0 = singleParameters_loop sp cp mdl self (p # rest)"
      using h by (simp add: singleParameters_def singleParameters_loop_append)
    also have "\<dots> = (self1, Raise e)" using h run(1) by simp
    finally have s: "singleParameters sp cp mdl self0 = (self1, Raise e)" .
    then show ?thesis by (simp add: allParameters_def)
  qed
  have 7: "evaluateNodeFunction sp env dat =
              ((if supress_model_output dat then []
                else [ut (Popen env (simulation_cmd env dat tmp_parameters))])
                 @ [ut (Popen env (simulation_cmd env dat tmp_parameters)),
                    ''Error when running simulation:'',
                    err (Popen env (simulation_cmd env dat tmp_parameters))],
               Inl (SystemExit 1))"
    if "set_tmp_parameters (tmp_parameter_names dat) (node dat) = Inr tmp_parameters
          \<and> returncode (Popen env (simulation_cmd env dat tmp_parameters)) \<noteq> 0"
    using that evaluateNodeFunction_nonzero_exit [of dat tmp_parameters _ env sp] by simp
  from 1 2 3 4 5 6 7 show ?thesis by blast
qed

text \<open>
  The run of \<^verbatim>\<open>singleParameters\<close> that completes \<^verbatim>\<open>kappa\<close> and fails on the first node of
  \<^verbatim>\<open>T_env\<close>.
\<close>

theorem node_failure_aborts_witness:
  "generate_nodes chaospy_example self_after_kappa (Some ''T_env'')
     = (self_after_kappa\<lparr>tmp_parameter_name := [PyStr ''T_env''],
          distribution := Some (J [PyDist (Dist ''Uniform(15, 25)'' 1)]),
          self_P := Some [0]\<rparr>,
        Inr ([0], [Scalar (PyFloat 0), Scalar (PyFloat 1)]))
   \<and> runParallelFunction scipy_example model_failing_T_env
        (Scalar (PyFloat 0), [PyStr ''T_env''], modelfile model_failing_T_env,
         modelpath model_failing_T_env, []) = Inl (ModelError ''boom'')
   \<and> createPCExpansion scipy_example chaospy_example model_failing_T_env self_after_kappa
        (Some ''T_env'')
       = (self_after_kappa\<lparr>tmp_parameter_name := [PyStr ''T_env''],
            distribution := Some (J [PyDist (Dist ''Uniform(15, 25)'' 1)]),
            self_P := Some [0]\<rparr>, Raise (ModelError ''boom''))
   \<and> createPCExpansion_prints scipy_example chaospy_example model_failing_T_env self_after_kappa
        (Some ''T_env'')
       = [Tuple (Scalar (PyFloat 0), [PyStr ''T_env''], ''INmodel.hoc'',
                 ''neuron_models/dLGN_modelDB/'', []),
          Line ''haha'', Line ''INmodel.hoc'', Line ''neuron_models/dLGN_modelDB/'']
   \<and> uncertain_parameters self_example = [''kappa''] @ ''T_env'' # []
   \<and> singleParameters_loop scipy_example chaospy_example model_failing_T_env self_example [''kappa'']
       = (self_after_kappa, Return_None)
   \<and> singleParameters scipy_example chaospy_example model_failing_T_env self_example
       = (self_after_kappa\<lparr>tmp_parameter_name := [PyStr ''T_env''],
            distribution := Some (J [PyDist (Dist ''Uniform(15, 25)'' 1)]),
            self_P := Some [0]\<rparr>, Raise (ModelError ''boom''))
   \<and> statistics self_after_kappa = (Some [7, 7], Some [0, 0], Some [7, 7], Some [7, 7], None)
   \<and> evaluateNodeFunction scipy_example process_failing data_example
       = ([''out'', ''Error when running simulation:'', ''boom''], Inl (SystemExit 1))"
proof -
  have i: "0 < length [Scalar (PyFloat 0), Scalar (PyFloat 1)]" by simp
  have fail: "runParallelFunction scipy_example model_failing_T_env
        ([Scalar (PyFloat 0), Scalar (PyFloat 1)] ! 0,
         tmp_parameter_name (self_after_kappa\<lparr>tmp_parameter_name := [PyStr ''T_env''],
            distribution := Some (J [PyDist (Dist ''Uniform(15, 25)'' 1)]),
            self_P := Some [0]\<rparr>),
         modelfile model_failing_T_env, modelpath model_failing_T_env,
         features (self_after_kappa\<lparr>tmp_parameter_name := [PyStr ''T_env''],
            distribution := Some (J [PyDist (Dist ''Uniform(15, 25)'' 1)]),
            self_P := Some [0]\<rparr>)) = Inl (ModelError ''boom'')"
    by (simp add: runParallelFunction_failing_T_env self_after_kappa_fields)
  have before: "\<forall>j < 0. \<exists>s. runParallelFunction scipy_example model_failing_T_env
        ([Scalar (PyFloat 0), Scalar (PyFloat 1)] ! j,
         tmp_parameter_name (self_after_kappa\<lparr>tmp_parameter_name := [PyStr ''T_env''],
            distribution := Some (J [PyDist (Dist ''Uniform(15, 25)'' 1)]),
            self_P := Some [0]\<rparr>),
         modelfile model_failing_T_env, modelpath model_failing_T_env,
         features (self_after_kappa\<lparr>tmp_parameter_name := [PyStr ''T_env''],
            distribution := Some (J [PyDist (Dist ''Uniform(15, 25)'' 1)]),
            self_P := Some [0]\<rparr>)) = Inr s"
    by simp
  have up: "uncertain_parameters self_example = [''kappa''] @ ''T_env'' # []"
    by (simp add: self_example_fields)
  have tmp: "set_tmp_parameters (tmp_parameter_names data_example) (node data_example)
               = Inr [(''kappa'', PyFloat 1)]"
    by (simp add: data_example_def set_tmp_parameters_def)
  have rc: "returncode (Popen process_failing
              (simulation_cmd process_failing data_example [(''kappa'', PyFloat 1)])) \<noteq> 0"
    by (simp add: process_failing_def)
  note inst = node_failure_aborts [OF generate_nodes_T_env i fail before,
      where dat = data_example and tmp_parameters = "[(''kappa'', PyFloat 1)]"
        and env = process_failing]
  from inst have single: "singleParameters scipy_example chaospy_example model_failing_T_env self_example
       = (self_after_kappa\<lparr>tmp_parameter_name := [PyStr ''T_env''],
            distribution := Some (J [PyDist (Dist ''Uniform(15, 25)'' 1)]),
            self_P := Some [0]\<rparr>, Raise (ModelError ''boom''))"
    using up singleParameters_loop_kappa by blast
  from inst tmp rc have ev: "evaluateNodeFunction scipy_example process_failing data_example
       = ([''out'', ''Error when running simulation:'', ''boom''], Inl (SystemExit 1))"
    by (simp add: process_failing_def data_example_def)
  from inst have prints: "createPCExpansion_prints scipy_example chaospy_example
        model_failing_T_env self_after_kappa (Some ''T_env'')
       = [Tuple (Scalar (PyFloat 0), [PyStr ''T_env''], ''INmodel.hoc'',
                 ''neuron_models/dLGN_modelDB/'', []),
          Line ''haha'', Line ''INmodel.hoc'', Line ''neuron_models/dLGN_modelDB/'']"
    by (simp add: model_failing_T_env_fields self_after_kappa_fields)
  from inst have run: "createPCExpansion scipy_example chaospy_example model_failing_T_env
        self_after_kappa (Some ''T_env'')
       = (self_after_kappa\<lparr>tmp_parameter_name := [PyStr ''T_env''],
            distribution := Some (J [PyDist (Dist ''Uniform(15, 25)'' 1)]),
            self_P := Some [0]\<rparr>, Raise (ModelError ''boom''))"
    by blast
  have fail': "runParallelFunction scipy_example model_failing_T_env
        (Scalar (PyFloat 0), [PyStr ''T_env''], modelfile model_failing_T_env,
         modelpath model_failing_T_env, []) = Inl (ModelError ''boom'')"
    by (rule runParallelFunction_failing_T_env)
  from generate_nodes_T_env fail' run prints up singleParameters_loop_kappa single
    self_after_kappa_fields(5) ev
  show ?thesis by blast
qed

subsection \<open>Degree 0\<close>

lemma multi_indices_degree_0: "multi_indices d 0 = [replicate d 0]"
  by (induction d) auto

lemma squares_expand:
  "(\<Sum>y \<leftarrow> ys. (y - c)\<^sup>2) = (\<Sum>y \<leftarrow> ys. y\<^sup>2) - 2 * c * sum_list ys + real (length ys) * c\<^sup>2"
  by (induction ys) (auto simp: power2_diff algebra_simps)

lemma squares_around_mean:
  assumes "ys \<noteq> []" and "m = sum_list ys / real (length ys)"
  shows "(\<Sum>y \<leftarrow> ys. (y - c)\<^sup>2) = (\<Sum>y \<leftarrow> ys. (y - m)\<^sup>2) + real (length ys) * (c - m)\<^sup>2"
proof -
  have n: "real (length ys) \<noteq> 0" using assms(1) by simp
  then have s: "sum_list ys = real (length ys) * m" using assms(2) by simp
  show ?thesis
    unfolding squares_expand s by (simp add: power2_diff algebra_simps power2_eq_square)
qed

lemma squared_error_constant:
  "length design = length ys \<Longrightarrow> \<forall>phis \<in> set design. phis = [1]
   \<Longrightarrow> squared_error design ys [c] = (\<Sum>y \<leftarrow> ys. (y - c)\<^sup>2)"
proof (induction design arbitrary: ys)
  case Nil
  then show ?case by (simp add: squared_error_def)
next
  case (Cons phis design)
  then obtain y ys' where ys: "ys = y # ys'" by (cases ys) auto
  with Cons.prems have "squared_error design ys' [c] = (\<Sum>y \<leftarrow> ys'. (y - c)\<^sup>2)"
    by (intro Cons.IH) auto
  moreover have "phis = [1]" using Cons.prems(2) by simp
  ultimately show ?case
    using ys by (simp add: squared_error_def U_hat_at_def)
qed

lemma least_squares_constant:
  assumes "ys \<noteq> []" and "length design = length ys" and "\<forall>phis \<in> set design. phis = [1]"
  shows "least_squares design ys [c] \<longleftrightarrow> c = sum_list ys / real (length ys)"
proof
  let ?m = "sum_list ys / real (length ys)"
  have n: "0 < real (length ys)" using assms(1) by simp
  assume ls: "least_squares design ys [c]"
  then have "squared_error design ys [c] \<le> squared_error design ys [?m]"
    by (simp add: least_squares_def)
  then have "(\<Sum>y \<leftarrow> ys. (y - c)\<^sup>2) \<le> (\<Sum>y \<leftarrow> ys. (y - ?m)\<^sup>2)"
    by (simp add: squared_error_constant [OF assms(2,3)])
  with squares_around_mean [OF assms(1) refl, of c]
  have "real (length ys) * (c - ?m)\<^sup>2 \<le> 0" by simp
  with n have "(c - ?m)\<^sup>2 \<le> 0" by (simp add: mult_le_0_iff)
  then show "c = ?m" by simp
next
  let ?m = "sum_list ys / real (length ys)"
  assume c: "c = ?m"
  show "least_squares design ys [c]"
    unfolding least_squares_def
  proof (intro allI impI)
    fix c' :: "real list"
    assume "length c' = length [c]"
    then obtain x where c': "c' = [x]" by (cases c') auto
    have "(\<Sum>y \<leftarrow> ys. (y - ?m)\<^sup>2) \<le> (\<Sum>y \<leftarrow> ys. (y - x)\<^sup>2)"
      using squares_around_mean [OF assms(1) refl, of x] by simp
    then show "squared_error design ys [c] \<le> squared_error design ys c'"
      by (simp add: c c' squared_error_constant [OF assms(2,3)])
  qed
qed

text \<open>
  Claim C7, on the polynomial-chaos model of the specification. A model of total degree 0
  has the single constant basis polynomial; when its coefficients are fitted by
  least-squares regression on a non-empty set of nodes, then at every time step of the
  grid the variance is 0 and the one coefficient, which is the mean, is the sample mean of
  the aligned outputs at that time step.
\<close>

theorem degree_0_variance:
  assumes fit: "fitted d 0 n pce" and t: "t < n"
      and nodes: "nodes \<noteq> []" "length outputs = length nodes"
      and const: "\<forall>x. Phi (replicate d 0) x = 1"
      and reg: "regression_fit Phi nodes outputs pce"
  shows "basis_indices pce = [replicate d 0]
       \<and> Variance pce t = 0
       \<and> Mean pce t = sum_list (column outputs t) / real (length nodes)
       \<and> coefficients pce ! t = [sum_list (column outputs t) / real (length nodes)]"
proof -
  have b: "basis_indices pce = [replicate d 0]"
    using fit by (simp add: fitted_def multi_indices_degree_0)
  have "coefficients pce ! t \<in> set (coefficients pce)"
    using fit t by (simp add: fitted_def)
  with fit b have "length (coefficients pce ! t) = 1" by (simp add: fitted_def)
  then obtain c where c: "coefficients pce ! t = [c]"
    by (cases "coefficients pce ! t") auto
  have v: "Variance pce t = 0" by (simp add: Variance_def b)
  let ?design = "map (\<lambda>x. map (\<lambda>k. Phi k x) (basis_indices pce)) nodes"
  have ls: "least_squares ?design (column outputs t) [c]"
    using reg fit t c by (auto simp: regression_fit_def fitted_def)
  have ne: "column outputs t \<noteq> []" using nodes by (auto simp: column_def)
  have len: "length ?design = length (column outputs t)" using nodes by (simp add: column_def)
  have ones: "\<forall>phis \<in> set ?design. phis = [1]" using const b by auto
  from least_squares_constant [OF ne len ones, of c] ls
  have "c = sum_list (column outputs t) / real (length nodes)"
    using nodes by (simp add: column_def)
  with b v c show ?thesis by (simp add: Mean_def)
qed

theorem degree_0_variance_witness:
  "fitted 1 0 3 pce_example
   \<and> (1 :: nat) < 3
   \<and> [0, 1 :: real] \<noteq> []
   \<and> length outputs_example = length [0, 1 :: real]
   \<and> (\<forall>x. Phi_example (replicate 1 0) x = 1)
   \<and> regression_fit Phi_example [0, 1] outputs_example pce_example
   \<and> Variance pce_example 1 = 0
   \<and> Mean pce_example 1 = 9"
proof -
  have fit: "fitted 1 0 3 pce_example"
    by (simp add: fitted_def pce_example_def)
  have t: "(1 :: nat) < 3" by simp
  have nodes: "[0, 1 :: real] \<noteq> []" "length outputs_example = length [0, 1 :: real]"
    by (simp_all add: outputs_example_def)
  have const: "\<forall>x. Phi_example (replicate 1 0) x = 1"
    by (simp add: Phi_example_def)
  have ls: "least_squares [[1], [1]] [a, b] [(a + b) / 2]" for a b :: real
    using least_squares_constant [of "[a, b]" "[[1], [1]]" "(a + b) / 2"] by simp
  have reg: "regression_fit Phi_example [0, 1] outputs_example pce_example"
    unfolding regression_fit_def
  proof (intro allI impI)
    fix t assume "t < length (coefficients pce_example)"
    then have "t = 0 \<or> t = 1 \<or> t = 2" by (auto simp: pce_example_def)
    then show "least_squares
                 (map (\<lambda>x. map (\<lambda>k. Phi_example k x) (basis_indices pce_example)) [0, 1])
                 (column outputs_example t) (coefficients pce_example ! t)"
      using ls [of 7 9] ls [of 8 10] ls [of 9 11]
      by (auto simp: pce_example_def Phi_example_def column_def outputs_example_def)
  qed
  from degree_0_variance [OF fit t nodes const reg] fit nodes const reg
  show ?thesis by (simp add: column_def outputs_example_def)
qed

end
